theory Spec2Isabelle
  imports Complex_Main
begin

section \<open>JavaScript numbers and property values\<close>

text \<open>
  The reports that \<^verbatim>\<open>web/routes/batchBacktest.js\<close> aggregates carry JavaScript
  numbers, which are IEEE 754 doubles. A number is modelled as \<open>NaN\<close>, one of the two
  infinities, or a finite value, given as the rational it denotes; the two zeros are
  one value. A property that may be missing has type \<open>jsval\<close>: \<open>None\<close> is
  \<^verbatim>\<open>undefined\<close> (reading an absent property gives \<^verbatim>\<open>undefined\<close> too).
\<close>

datatype jsnum = NaN | NegInfinity | Fin rat | Infinity

type_synonym jsval = "jsnum option"

text \<open>\<^verbatim>\<open>ToNumber\<close>: \<^verbatim>\<open>undefined\<close> becomes \<^verbatim>\<open>NaN\<close>.\<close>

fun ToNumber :: "jsval \<Rightarrow> jsnum" where
  "ToNumber None = NaN"
| "ToNumber (Some n) = n"

text \<open>
  The finite doubles are the rationals \<open>m * 2 ^ e\<close> with \<open>\<bar>m\<bar> < 2 ^ 53\<close> and
  \<open>- 1074 \<le> e \<le> 971\<close>. An arithmetic operation gives the double nearest to the exact
  result, the one with an even \<open>m\<close> when two are equally near, and an infinity from
  \<open>2 ^ 1024 - 2 ^ 970\<close> on. \<open>to_double\<close> is this rounding, on the fraction \<open>p / d\<close> that
  \<open>quotient_of\<close> gives for the absolute value: \<open>bit_length n\<close> is the number of binary
  digits of \<open>n\<close>, \<open>scale2 n e\<close> is \<open>n * 2 ^ e\<close> for a positive \<open>e\<close> and \<open>n\<close> otherwise,
  \<open>floor_log2 p d\<close> is the exponent of the highest power of two not above \<open>p / d\<close>, and
  \<open>round_half_even n d\<close> is the whole number nearest to \<open>n / d\<close>.
\<close>

function bit_length :: "int \<Rightarrow> int" where
  "bit_length n = (if n \<le> 0 then 0 else 1 + bit_length (n div 2))"
  by pat_completeness auto
termination
  by (relation "measure nat") auto

declare bit_length.simps [simp del]

definition scale2 :: "int \<Rightarrow> int \<Rightarrow> int" where
  "scale2 n e = (if 0 < e then n * 2 ^ nat e else n)"

definition floor_log2 :: "int \<Rightarrow> int \<Rightarrow> int" where
  "floor_log2 p d =
     (let k = bit_length p - bit_length d
      in if scale2 d k \<le> scale2 p (- k) then k else k - 1)"

definition round_half_even :: "int \<Rightarrow> int \<Rightarrow> int" where
  "round_half_even n d =
     (let f = n div d; r = n mod d
      in if 2 * r < d then f else if d < 2 * r then f + 1 else if even f then f else f + 1)"

definition to_double :: "rat \<Rightarrow> jsnum" where
  "to_double q =
     (case quotient_of \<bar>q\<bar> of (p, d) \<Rightarrow>
        if p = 0 then Fin 0
        else let e = max (floor_log2 p d - 52) (- 1074);
                 m = round_half_even (scale2 p (- e)) (scale2 d e)
             in if 2 ^ 1024 \<le> scale2 m e then (if q < 0 then NegInfinity else Infinity)
                else Fin ((if q < 0 then - 1 else 1) * of_int (scale2 m e) / of_int (scale2 1 (- e))))"

text \<open>A rational is a double when rounding leaves it as it is.\<close>

definition is_double :: "rat \<Rightarrow> bool" where
  "is_double q = (to_double q = Fin q)"

text \<open>
  Addition of two numbers: \<^verbatim>\<open>NaN\<close> absorbs, opposite infinities give \<^verbatim>\<open>NaN\<close>, and the
  sum of two finite numbers is their exact sum rounded to a double.
\<close>

fun num_add :: "jsnum \<Rightarrow> jsnum \<Rightarrow> jsnum" where
  "num_add NaN _ = NaN"
| "num_add _ NaN = NaN"
| "num_add Infinity NegInfinity = NaN"
| "num_add NegInfinity Infinity = NaN"
| "num_add Infinity _ = Infinity"
| "num_add _ Infinity = Infinity"
| "num_add NegInfinity _ = NegInfinity"
| "num_add _ NegInfinity = NegInfinity"
| "num_add (Fin a) (Fin b) = to_double (a + b)"

text \<open>The operator \<^verbatim>\<open>a + b\<close> on two properties that hold numbers or are missing.\<close>

definition js_add :: "jsval \<Rightarrow> jsval \<Rightarrow> jsval" where
  "js_add a b = Some (num_add (ToNumber a) (ToNumber b))"

text \<open>
  Adding up a list of finite numbers from the left loses nothing when the running
  total is a double after each addition: \<open>exact_from a xs\<close> for the numbers \<open>xs\<close> added
  to the total \<open>a\<close>, \<open>exact_sums xs\<close> for a list added up from its first number.
\<close>

fun exact_from :: "rat \<Rightarrow> rat list \<Rightarrow> bool" where
  "exact_from a [] = True"
| "exact_from a (x # xs) = (is_double (a + x) \<and> exact_from (a + x) xs)"

definition exact_sums :: "rat list \<Rightarrow> bool" where
  "exact_sums xs = (case xs of [] \<Rightarrow> True | x # xs' \<Rightarrow> exact_from x xs')"

text \<open>The order of numbers; every comparison with \<^verbatim>\<open>NaN\<close> is false.\<close>

fun num_lt :: "jsnum \<Rightarrow> jsnum \<Rightarrow> bool" where
  "num_lt NaN _ = False"
| "num_lt _ NaN = False"
| "num_lt _ NegInfinity = False"
| "num_lt NegInfinity _ = True"
| "num_lt Infinity _ = False"
| "num_lt _ Infinity = True"
| "num_lt (Fin a) (Fin b) = (a < b)"

text \<open>\<^verbatim>\<open>a < b\<close> and \<^verbatim>\<open>a >= b\<close> on properties.\<close>

definition js_lt :: "jsval \<Rightarrow> jsval \<Rightarrow> bool" where
  "js_lt a b = num_lt (ToNumber a) (ToNumber b)"

definition js_ge :: "jsval \<Rightarrow> jsval \<Rightarrow> bool" where
  "js_ge a b =
     (ToNumber a \<noteq> NaN \<and> ToNumber b \<noteq> NaN \<and> \<not> num_lt (ToNumber a) (ToNumber b))"

text \<open>
  \<^verbatim>\<open>Math.min.apply(null, xs)\<close> and \<^verbatim>\<open>Math.max.apply(null, xs)\<close>: every argument is
  converted with \<^verbatim>\<open>ToNumber\<close>, a \<^verbatim>\<open>NaN\<close> among them makes the result \<^verbatim>\<open>NaN\<close>,
  and no argument at all gives \<^verbatim>\<open>Infinity\<close>, respectively \<^verbatim>\<open>-Infinity\<close>.
\<close>

definition num_min :: "jsnum \<Rightarrow> jsnum \<Rightarrow> jsnum" where
  "num_min a b = (if a = NaN \<or> b = NaN then NaN else if num_lt b a then b else a)"

definition num_max :: "jsnum \<Rightarrow> jsnum \<Rightarrow> jsnum" where
  "num_max a b = (if a = NaN \<or> b = NaN then NaN else if num_lt a b then b else a)"

definition Math_min :: "jsval list \<Rightarrow> jsnum" where
  "Math_min xs = foldl num_min Infinity (map ToNumber xs)"

definition Math_max :: "jsval list \<Rightarrow> jsnum" where
  "Math_max xs = foldl num_max NegInfinity (map ToNumber xs)"

section \<open>Result reports\<close>

text \<open>
  The \<^verbatim>\<open>performanceReport\<close> of one backtest, with the ten properties the route reads.
  The result of one backtest (one element of \<^verbatim>\<open>backtests\<close>) is an object whose
  \<^verbatim>\<open>performanceReport\<close> and \<^verbatim>\<open>tradingAdvisor\<close> may be missing; \<open>None\<close> is a
  missing (\<^verbatim>\<open>undefined\<close> or \<^verbatim>\<open>null\<close>) object.
\<close>

record performanceReport =
  losses :: jsval
  profit :: jsval
  relativeProfit :: jsval
  trades :: jsval
  yearlyProfit :: jsval
  endPrice :: jsval
  endTime :: jsval
  startBalance :: jsval
  startPrice :: jsval
  startTime :: jsval

record stats =
  profits :: jsval
  profitTot :: jsval

record advisorResult =
  stats :: "stats option"

record backtestResult =
  performanceReport :: "performanceReport option"
  tradingAdvisor :: "advisorResult option"

text \<open>The object returned by \<^verbatim>\<open>getTotalPerformanceReport\<close>.\<close>

record totalPerformanceReport = performanceReport +
  minProfit :: jsval
  maxProfit :: jsval
  periodsProfit :: nat
  periodsLoss :: nat
  periodsTotal :: nat

record batchReport =
  batchMinProfit :: jsval
  batchMaxProfit :: jsval

record fakeReport =
  fakeStats :: "stats list"
  fakeTrades :: jsval
  fakeTotal :: jsval

text \<open>
  Reading a property of \<^verbatim>\<open>undefined\<close> throws a \<^verbatim>\<open>TypeError\<close>; the compute engine
  rejects with an error of its own.
\<close>

datatype 'e error = TypeError | EngineError 'e

section \<open>The report aggregator\<close>

text \<open>The empty object \<^verbatim>\<open>{}\<close> of \<^verbatim>\<open>res.performanceReport || {}\<close>: every property missing.\<close>

definition empty_object :: performanceReport where
  "empty_object = \<lparr>losses = None, profit = None, relativeProfit = None, trades = None,
     yearlyProfit = None, endPrice = None, endTime = None, startBalance = None,
     startPrice = None, startTime = None\<rparr>"

definition or_empty :: "performanceReport option \<Rightarrow> performanceReport" where
  "or_empty p = (case p of None \<Rightarrow> empty_object | Some r \<Rightarrow> r)"

text \<open>
  The callback of \<^verbatim>\<open>backtests.reduce\<close> (lines 110 to 121). The accumulator \<open>res\<close> is
  only ever read through \<^verbatim>\<open>res.performanceReport\<close>, so the model passes that property:
  for the first call it is the one of \<^verbatim>\<open>backtests[0]\<close>, afterwards the one of the object
  the callback returned. The returned \<^verbatim>\<open>performanceReport\<close> has the five summed
  properties only.
\<close>

definition reducer :: "performanceReport option \<Rightarrow> 'a backtestResult_scheme \<Rightarrow> performanceReport option" where
  "reducer res cur =
     (let pfRes = or_empty res;
          pfCur = or_empty (performanceReport cur)
      in Some (empty_object\<lparr>
           losses := js_add (losses pfRes) (losses pfCur),
           profit := js_add (profit pfRes) (profit pfCur),
           relativeProfit := js_add (relativeProfit pfRes) (relativeProfit pfCur),
           trades := js_add (trades pfRes) (trades pfCur),
           yearlyProfit := js_add (yearlyProfit pfRes) (yearlyProfit pfCur)\<rparr>))"

text \<open>
  \<^verbatim>\<open>backtests.reduce(f).performanceReport\<close>: without a seed the first element is
  the accumulator, an array of one element is returned as it is (the callback is not
  called), and an empty array throws a \<^verbatim>\<open>TypeError\<close>.
\<close>

fun reduce_reports :: "'a backtestResult_scheme list \<Rightarrow> 'e error + performanceReport option" where
  "reduce_reports [] = Inl TypeError"
| "reduce_reports (b # bs) = Inr (foldl reducer (performanceReport b) bs)"

text \<open>
  \<^verbatim>\<open>backtests.map(backtest => backtest.performanceReport.profit)\<close>: a
  \<^verbatim>\<open>TypeError\<close> at the first report without a \<^verbatim>\<open>performanceReport\<close>.
\<close>

fun profits_of :: "'a backtestResult_scheme list \<Rightarrow> 'e error + jsval list" where
  "profits_of [] = Inr []"
| "profits_of (b # bs) =
     (case performanceReport b of
        None \<Rightarrow> Inl TypeError
      | Some p \<Rightarrow> (case profits_of bs of Inl e \<Rightarrow> Inl e | Inr ps \<Rightarrow> Inr (profit p # ps)))"

text \<open>
  \<^verbatim>\<open>getTotalPerformanceReport(backtests = [], batchPeriodProfitThreshold = 0)\<close>,
  lines 106 to 139. The threshold parameter takes its default when the argument is
  \<^verbatim>\<open>undefined\<close>. The result \<open>Inr None\<close> is the return value \<^verbatim>\<open>undefined\<close>. The
  properties of the object literal passed to \<^verbatim>\<open>Object.assign\<close> are evaluated in
  the order of the source: \<^verbatim>\<open>last\<close> is read first, then \<^verbatim>\<open>first\<close>, then the
  profits. For one report \<^verbatim>\<open>ret\<close> is the report's own \<^verbatim>\<open>performanceReport\<close>
  object, to which the properties are assigned.
\<close>

definition getTotalPerformanceReport ::
  "'a backtestResult_scheme list \<Rightarrow> jsval \<Rightarrow> 'e error + totalPerformanceReport option" where
  "getTotalPerformanceReport backtests batchPeriodProfitThreshold =
     (let threshold = (case batchPeriodProfitThreshold of None \<Rightarrow> Some (Fin 0) | Some t \<Rightarrow> Some t)
      in if length backtests > 0 then
           (case reduce_reports backtests of
              Inl e \<Rightarrow> Inl e
            | Inr ret \<Rightarrow>
               (case performanceReport (last backtests) of
                  None \<Rightarrow> Inl TypeError
                | Some lastR \<Rightarrow>
                   (case performanceReport (hd backtests) of
                      None \<Rightarrow> Inl TypeError
                    | Some firstR \<Rightarrow>
                       (case profits_of backtests of
                          Inl e \<Rightarrow> Inl e
                        | Inr ps \<Rightarrow>
                           (case ret of
                              None \<Rightarrow> Inl TypeError
                            | Some r \<Rightarrow>
                               Inr (Some (performanceReport.extend
                                 (r\<lparr>endPrice := endPrice lastR,
                                    endTime := endTime lastR,
                                    startBalance := startBalance firstR,
                                    startPrice := startPrice firstR,
                                    startTime := startTime firstR\<rparr>)
                                 (totalPerformanceReport.fields
                                    (Some (Math_min ps))
                                    (Some (Math_max ps))
                                    (length (filter (\<lambda>p. js_ge p threshold) ps))
                                    (length (filter (\<lambda>p. js_lt p threshold) ps))
                                    (length backtests)))))))))
         else Inr None)"

text \<open>
  \<^verbatim>\<open>getFakeReport(stats)\<close>, lines 140 to 152: two sums seeded with \<^verbatim>\<open>0\<close>.
\<close>

definition getFakeReport :: "stats list \<Rightarrow> fakeReport" where
  "getFakeReport sts =
     \<lparr>fakeStats = sts,
      fakeTrades = foldl (\<lambda>acc s. js_add acc (profits s)) (Some (Fin 0)) sts,
      fakeTotal = foldl (\<lambda>acc s. js_add acc (profitTot s)) (Some (Fin 0)) sts\<rparr>"

text \<open>
  \<^verbatim>\<open>getBatchBacktestReport(backtests)\<close>, lines 154 to 164. The profits are mapped
  before the length is tested, so a report without \<^verbatim>\<open>performanceReport\<close> throws here
  too.
\<close>

definition getBatchBacktestReport :: "'a backtestResult_scheme list \<Rightarrow> 'e error + batchReport option" where
  "getBatchBacktestReport backtests =
     (case profits_of backtests of
        Inl e \<Rightarrow> Inl e
      | Inr profitsArr \<Rightarrow>
          if length backtests > 0
          then Inr (Some \<lparr>batchMinProfit = Some (Math_min profitsArr),
                           batchMaxProfit = Some (Math_max profitsArr)\<rparr>)
          else Inr None)"

section \<open>Dates\<close>

text \<open>
  A \<^verbatim>\<open>Date\<close> is its time value, the milliseconds since the epoch, or \<open>None\<close> for an
  invalid date. A time value is a whole number of at most \<open>8640000000000000\<close> in
  absolute value (a hundred million days each side of the epoch); setting a \<^verbatim>\<open>Date\<close>
  to a time outside this range makes it invalid, which is \<open>time_clip\<close>. The span tables
  hold instants written as \<^verbatim>\<open>YYYY-MM-DDTHH:MM:SSZ\<close>; \<open>moment\<close> reads this one format
  of ISO 8601 (the only one the tables use) and gives the invalid date for anything
  else. An instant with a year of four digits is always in the range.
\<close>

type_synonym date = "int option"

definition time_clip :: "int \<Rightarrow> date" where
  "time_clip t = (if \<bar>t\<bar> \<le> 8640000000000000 then Some t else None)"

definition digit :: "char \<Rightarrow> int option" where
  "digit c = map_of (zip ''0123456789'' [0, 1, 2, 3, 4, 5, 6, 7, 8, 9]) c"

fun digits :: "int \<Rightarrow> string \<Rightarrow> int option" where
  "digits acc [] = Some acc"
| "digits acc (c # cs) = (case digit c of None \<Rightarrow> None | Some d \<Rightarrow> digits (10 * acc + d) cs)"

definition leap_year :: "int \<Rightarrow> bool" where
  "leap_year y = (y mod 4 = 0 \<and> (y mod 100 \<noteq> 0 \<or> y mod 400 = 0))"

definition days_in_month :: "int \<Rightarrow> int \<Rightarrow> int" where
  "days_in_month y m =
     (if m = 2 then (if leap_year y then 29 else 28)
      else if m = 4 \<or> m = 6 \<or> m = 9 \<or> m = 11 then 30 else 31)"

text \<open>
  The six numbers of a timestamp \<^verbatim>\<open>YYYY-MM-DDTHH:MM:SSZ\<close>: twenty characters, with
  the separators at their places.
\<close>

fun iso_fields :: "string \<Rightarrow> (int \<times> int \<times> int \<times> int \<times> int \<times> int) option" where
  "iso_fields [y1, y2, y3, y4, s1, m1, m2, s2, d1, d2, t, h1, h2, c1, n1, n2, c2, e1, e2, z] =
     (if s1 = CHR ''-'' \<and> s2 = CHR ''-'' \<and> t = CHR ''T'' \<and> c1 = CHR '':'' \<and> c2 = CHR '':''
         \<and> z = CHR ''Z''
      then (case (digits 0 [y1, y2, y3, y4], digits 0 [m1, m2], digits 0 [d1, d2],
                  digits 0 [h1, h2], digits 0 [n1, n2], digits 0 [e1, e2]) of
              (Some y, Some m, Some d, Some h, Some n, Some e) \<Rightarrow> Some (y, m, d, h, n, e)
            | _ \<Rightarrow> None)
      else None)"
| "iso_fields _ = None"

text \<open>
  The calendar date (year, month, day) and the time of day (in milliseconds) that a
  timestamp names, when its numbers are in range.
\<close>

definition iso_stamp :: "string \<Rightarrow> ((int \<times> int \<times> int) \<times> int) option" where
  "iso_stamp s =
     (case iso_fields s of
        None \<Rightarrow> None
      | Some (y, m, d, h, n, e) \<Rightarrow>
          if 1 \<le> m \<and> m \<le> 12 \<and> 1 \<le> d \<and> d \<le> days_in_month y m \<and> h < 24 \<and> n < 60 \<and> e < 60
          then Some ((y, m, d), h * 3600000 + n * 60000 + e * 1000)
          else None)"

text \<open>Days from 1970-01-01 to a date of the proleptic Gregorian calendar.\<close>

definition days_from_civil :: "int \<times> int \<times> int \<Rightarrow> int" where
  "days_from_civil ymd =
     (case ymd of (y, m, d) \<Rightarrow>
        let y' = (if m \<le> 2 then y - 1 else y);
            era = y' div 400;
            yoe = y' - era * 400;
            mp = (if 2 < m then m - 3 else m + 9);
            doy = (153 * mp + 2) div 5 + d - 1;
            doe = yoe * 365 + yoe div 4 - yoe div 100 + doy
        in era * 146097 + doe - 719468)"

definition epoch_ms :: "int \<times> int \<times> int \<Rightarrow> int" where
  "epoch_ms ymd = days_from_civil ymd * 86400000"

text \<open>\<^verbatim>\<open>moment(s)\<close> for a timestamp \<open>s\<close> of the tables: its time value.\<close>

definition moment :: "string \<Rightarrow> date" where
  "moment s = (case iso_stamp s of None \<Rightarrow> None | Some (ymd, tm) \<Rightarrow> Some (epoch_ms ymd + tm))"

text \<open>
  \<^verbatim>\<open>m.subtract(warmupMinutes, 'minutes').toDate()\<close>, for a whole number of minutes.
  An invalid date stays invalid and a duration of zero changes nothing; otherwise
  the time value is set to the old one minus \<open>60000\<close> milliseconds per minute, which
  gives the invalid date outside the range of \<^verbatim>\<open>Date\<close>. The code computes the new
  time value on doubles, as \<^verbatim>\<open>t + warmupMinutes * 6e4 * -1\<close>. For a whole number of
  minutes and an instant \<open>t\<close> of the tables (less than \<open>2 ^ 48\<close> milliseconds from the
  epoch) this agrees with the exact value: an exact result within the range of
  \<^verbatim>\<open>Date\<close> has a product and a sum below \<open>2 ^ 53\<close>, which doubles hold exactly, and an
  exact result outside the range stays outside when it is rounded.
\<close>

definition subtract_minutes :: "int \<Rightarrow> date \<Rightarrow> date" where
  "subtract_minutes warmupMinutes m =
     (case m of
        None \<Rightarrow> None
      | Some t \<Rightarrow> if warmupMinutes = 0 then Some t else time_clip (t - warmupMinutes * 60000))"

section \<open>The span generator\<close>

text \<open>
  A date span \<^verbatim>\<open>{ from: \<dots>, to: \<dots> }\<close>: \<^verbatim>\<open>from\<close> is a \<^verbatim>\<open>Date\<close>, \<^verbatim>\<open>to\<close> a string.
  (The two properties are called \<open>span_from\<close> and \<open>span_to\<close> here.) Every entry of the
  three tables has the form
  \<^verbatim>\<open>{ from: moment(a).subtract(warmupMinutes, 'minutes').toDate(), to: b }\<close>, written
  \<open>span warmupMinutes a b\<close>. \<^verbatim>\<open>warmupMinutes\<close> is a whole number of minutes.
\<close>

record dateSpan =
  span_from :: date
  span_to :: string

definition span :: "int \<Rightarrow> string \<Rightarrow> string \<Rightarrow> dateSpan" where
  "span warmupMinutes a b = \<lparr>span_from = subtract_minutes warmupMinutes (moment a), span_to = b\<rparr>"

text \<open>\<^verbatim>\<open>monthlySpans\<close>, lines 166 to 216.\<close>

definition monthlySpans :: "int \<Rightarrow> dateSpan list" where
  "monthlySpans warmupMinutes = [
     span warmupMinutes ''2017-09-21T00:00:00Z'' ''2017-10-21T00:00:00Z'',
     span warmupMinutes ''2017-10-21T00:00:00Z'' ''2017-11-21T00:00:00Z'',
     span warmupMinutes ''2017-11-21T00:00:00Z'' ''2017-12-21T00:00:00Z'',
     span warmupMinutes ''2017-12-21T00:00:00Z'' ''2018-01-21T00:00:00Z'',
     span warmupMinutes ''2018-01-21T00:00:00Z'' ''2018-02-21T00:00:00Z'',
     span warmupMinutes ''2018-02-21T00:00:00Z'' ''2018-03-21T00:00:00Z'',
     span warmupMinutes ''2018-03-21T00:00:00Z'' ''2018-04-21T00:00:00Z'',
     span warmupMinutes ''2018-04-21T00:00:00Z'' ''2018-05-21T00:00:00Z'',
     span warmupMinutes ''2018-05-21T00:00:00Z'' ''2018-06-21T00:00:00Z'',
     span warmupMinutes ''2018-06-21T00:00:00Z'' ''2018-07-21T00:00:00Z'',
     span warmupMinutes ''2018-07-21T00:00:00Z'' ''2018-08-21T00:00:00Z'',
     span warmupMinutes ''2018-08-21T00:00:00Z'' ''2018-09-21T00:00:00Z'',
     span warmupMinutes ''2018-09-21T00:00:00Z'' ''2018-10-21T00:00:00Z'',
     span warmupMinutes ''2018-10-21T00:00:00Z'' ''2018-11-21T00:00:00Z'',
     span warmupMinutes ''2018-11-21T00:00:00Z'' ''2018-12-21T00:00:00Z'',
     span warmupMinutes ''2018-12-21T00:00:00Z'' ''2019-01-21T00:00:00Z'',
     span warmupMinutes ''2019-01-21T00:00:00Z'' ''2019-02-21T00:00:00Z'',
     span warmupMinutes ''2019-02-21T00:00:00Z'' ''2019-03-21T00:00:00Z'',
     span warmupMinutes ''2019-03-21T00:00:00Z'' ''2019-04-21T00:00:00Z'',
     span warmupMinutes ''2019-04-21T00:00:00Z'' ''2019-05-21T00:00:00Z'',
     span warmupMinutes ''2019-05-21T00:00:00Z'' ''2019-06-21T00:00:00Z'',
     span warmupMinutes ''2019-06-21T00:00:00Z'' ''2019-07-21T00:00:00Z'',
     span warmupMinutes ''2019-07-21T00:00:00Z'' ''2019-08-21T00:00:00Z'',
     span warmupMinutes ''2019-08-21T00:00:00Z'' ''2019-09-21T00:00:00Z'',
     span warmupMinutes ''2019-09-21T00:00:00Z'' ''2019-10-21T00:00:00Z'',
     span warmupMinutes ''2019-10-21T00:00:00Z'' ''2019-11-21T00:00:00Z'',
     span warmupMinutes ''2019-11-21T00:00:00Z'' ''2019-12-21T00:00:00Z'',
     span warmupMinutes ''2019-12-21T00:00:00Z'' ''2020-01-21T00:00:00Z'',
     span warmupMinutes ''2020-01-21T00:00:00Z'' ''2020-02-21T00:00:00Z'',
     span warmupMinutes ''2020-02-21T00:00:00Z'' ''2020-03-21T00:00:00Z'',
     span warmupMinutes ''2020-03-21T00:00:00Z'' ''2020-04-21T00:00:00Z'',
     span warmupMinutes ''2020-04-21T00:00:00Z'' ''2020-05-21T00:00:00Z'',
     span warmupMinutes ''2020-05-21T00:00:00Z'' ''2020-06-21T00:00:00Z'',
     span warmupMinutes ''2020-06-21T00:00:00Z'' ''2020-07-21T00:00:00Z'',
     span warmupMinutes ''2020-07-21T00:00:00Z'' ''2020-08-21T00:00:00Z'',
     span warmupMinutes ''2020-08-21T00:00:00Z'' ''2020-09-21T00:00:00Z'',
     span warmupMinutes ''2020-09-21T00:00:00Z'' ''2020-10-21T00:00:00Z'',
     span warmupMinutes ''2020-10-21T00:00:00Z'' ''2020-11-21T00:00:00Z'',
     span warmupMinutes ''2020-11-21T00:00:00Z'' ''2020-12-21T00:00:00Z'',
     span warmupMinutes ''2020-12-21T00:00:00Z'' ''2021-01-21T00:00:00Z'',
     span warmupMinutes ''2021-01-21T00:00:00Z'' ''2021-02-21T00:00:00Z'']"

text \<open>\<^verbatim>\<open>quarterlySpans\<close>, lines 218 to 241.\<close>

definition quarterlySpans :: "int \<Rightarrow> dateSpan list" where
  "quarterlySpans warmupMinutes = [
     span warmupMinutes ''2017-10-01T00:00:00Z'' ''2018-01-01T00:00:00Z'',
     span warmupMinutes ''2018-01-01T00:00:00Z'' ''2018-04-01T00:00:00Z'',
     span warmupMinutes ''2018-04-01T00:00:00Z'' ''2018-07-01T00:00:00Z'',
     span warmupMinutes ''2018-07-01T00:00:00Z'' ''2018-10-01T00:00:00Z'',
     span warmupMinutes ''2018-10-01T00:00:00Z'' ''2019-01-01T00:00:00Z'',
     span warmupMinutes ''2019-01-01T00:00:00Z'' ''2019-04-01T00:00:00Z'',
     span warmupMinutes ''2019-04-01T00:00:00Z'' ''2019-07-01T00:00:00Z'',
     span warmupMinutes ''2019-07-01T00:00:00Z'' ''2019-10-01T00:00:00Z'',
     span warmupMinutes ''2019-10-01T00:00:00Z'' ''2020-01-01T00:00:00Z'',
     span warmupMinutes ''2020-01-01T00:00:00Z'' ''2020-04-01T00:00:00Z'',
     span warmupMinutes ''2020-04-01T00:00:00Z'' ''2020-07-01T00:00:00Z'',
     span warmupMinutes ''2020-07-01T00:00:00Z'' ''2020-10-01T00:00:00Z'',
     span warmupMinutes ''2020-10-01T00:00:00Z'' ''2021-01-01T00:00:00Z'']"

text \<open>\<^verbatim>\<open>yearlySpans\<close>, lines 243 to 253.\<close>

definition yearlySpans :: "int \<Rightarrow> dateSpan list" where
  "yearlySpans warmupMinutes = [
     span warmupMinutes ''2018-01-01T00:00:00Z'' ''2019-01-01T00:00:00Z'',
     span warmupMinutes ''2019-01-01T00:00:00Z'' ''2020-01-01T00:00:00Z'',
     span warmupMinutes ''2020-01-01T00:00:00Z'' ''2021-01-01T00:00:00Z'']"

text \<open>
  Calendar arithmetic for stating the length of a partition: the date \<open>k\<close> months
  before a date, with the same day of the month.
\<close>

definition months_before :: "int \<Rightarrow> int \<times> int \<times> int \<Rightarrow> int \<times> int \<times> int" where
  "months_before k ymd =
     (case ymd of (y, m, d) \<Rightarrow>
        let n = y * 12 + (m - 1) - k
        in (n div 12, n mod 12 + 1, d))"

text \<open>
  The nominal start of the partition that ends at the timestamp \<open>t\<close>, for a partition
  of \<open>k\<close> calendar months: the instant \<open>k\<close> months before \<open>t\<close>.
\<close>

definition partition_start :: "int \<Rightarrow> string \<Rightarrow> date" where
  "partition_start k t =
     (case iso_stamp t of
        None \<Rightarrow> None
      | Some (ymd, tm) \<Rightarrow> Some (epoch_ms (months_before k ymd) + tm))"

text \<open>
  Three checks on timestamps: the partition ending at \<open>t\<close> is not empty; the
  partition ending at \<open>a\<close> ends no later than the one ending at \<open>b\<close> starts; and the
  partition ending at \<open>t\<close> starts no earlier than 2017-09-21T00:00:00Z, the first
  nominal start of the three tables, and no later than the last instant of a
  \<^verbatim>\<open>Date\<close>.
\<close>

definition partition_in_range :: "int \<Rightarrow> string \<Rightarrow> bool" where
  "partition_in_range k t =
     (case partition_start k t of
        Some s \<Rightarrow> 1505952000000 \<le> s \<and> s \<le> 8640000000000000
      | None \<Rightarrow> False)"

definition partition_nonempty :: "int \<Rightarrow> string \<Rightarrow> bool" where
  "partition_nonempty k t =
     (case (partition_start k t, moment t) of (Some s, Some e) \<Rightarrow> s < e | _ \<Rightarrow> False)"

definition ends_before :: "int \<Rightarrow> string \<Rightarrow> string \<Rightarrow> bool" where
  "ends_before k a b =
     (case (moment a, partition_start k b) of (Some e, Some s) \<Rightarrow> e \<le> s | _ \<Rightarrow> False)"

section \<open>Configuration values\<close>

text \<open>
  The values a configuration may hold: what the JSON body of a request gives, and what
  a plain configuration module may add to that (\<^verbatim>\<open>undefined\<close>, numbers that are not
  finite, dates). An object is the list of its properties in their order; a property
  name occurs once in it.
\<close>

datatype jv =
    JUndefined
  | JNull
  | JBool bool
  | JNum jsnum
  | JStr string
  | JDate date
  | JArr "jv list"
  | JObj "(string \<times> jv) list"

text \<open>Truthiness, as \<^verbatim>\<open>!x\<close>, \<^verbatim>\<open>!!x\<close>, \<^verbatim>\<open>&&\<close> and \<^verbatim>\<open>||\<close> test it.\<close>

fun truthy :: "jv \<Rightarrow> bool" where
  "truthy JUndefined = False"
| "truthy JNull = False"
| "truthy (JBool b) = b"
| "truthy (JNum n) = (n \<noteq> NaN \<and> n \<noteq> Fin 0)"
| "truthy (JStr s) = (s \<noteq> [])"
| "truthy (JDate d) = True"
| "truthy (JArr xs) = True"
| "truthy (JObj ps) = True"

text \<open>
  \<^verbatim>\<open>Date.prototype.toISOString\<close>, which \<^verbatim>\<open>JSON.stringify\<close> applies to a valid date:
  \<^verbatim>\<open>YYYY-MM-DDTHH:MM:SS.sssZ\<close>, with a sign and six digits for a year outside
  \<open>0\<close> to \<open>9999\<close>.
\<close>

definition digit_char :: "int \<Rightarrow> char" where
  "digit_char d = ''0123456789'' ! nat d"

fun pad :: "nat \<Rightarrow> int \<Rightarrow> string" where
  "pad 0 x = []"
| "pad (Suc n) x = pad n (x div 10) @ [digit_char (x mod 10)]"

definition civil_from_days :: "int \<Rightarrow> int \<times> int \<times> int" where
  "civil_from_days z =
     (let z' = z + 719468;
          era = z' div 146097;
          doe = z' - era * 146097;
          yoe = (doe - doe div 1460 + doe div 36524 - doe div 146096) div 365;
          doy = doe - (365 * yoe + yoe div 4 - yoe div 100);
          mp = (5 * doy + 2) div 153;
          d = doy - (153 * mp + 2) div 5 + 1;
          m = (if mp < 10 then mp + 3 else mp - 9);
          y = yoe + era * 400
      in (if m \<le> 2 then y + 1 else y, m, d))"

definition toISOString :: "int \<Rightarrow> string" where
  "toISOString t =
     (let ms = t mod 86400000 in
      case civil_from_days (t div 86400000) of (y, m, d) \<Rightarrow>
        (if 0 \<le> y \<and> y \<le> 9999 then pad 4 y
         else (if y < 0 then ''-'' else ''+'') @ pad 6 \<bar>y\<bar>)
        @ ''-'' @ pad 2 m @ ''-'' @ pad 2 d @ ''T'' @ pad 2 (ms div 3600000)
        @ '':'' @ pad 2 (ms div 60000 mod 60) @ '':'' @ pad 2 (ms div 1000 mod 60)
        @ ''.'' @ pad 3 (ms mod 1000) @ ''Z'')"

text \<open>
  \<^verbatim>\<open>JSON.parse(JSON.stringify(v))\<close> for a value \<open>v\<close> inside an object or an array. A
  property whose value is \<^verbatim>\<open>undefined\<close> is left out; an \<^verbatim>\<open>undefined\<close> element of an
  array, a number that is not finite and an invalid date become \<^verbatim>\<open>null\<close>; a valid
  date becomes its ISO string.
\<close>

fun json_value :: "jv \<Rightarrow> jv"
  and json_elems :: "jv list \<Rightarrow> jv list"
  and json_props :: "(string \<times> jv) list \<Rightarrow> (string \<times> jv) list" where
  "json_value JUndefined = JNull"
| "json_value JNull = JNull"
| "json_value (JBool b) = JBool b"
| "json_value (JNum (Fin q)) = JNum (Fin q)"
| "json_value (JNum n) = JNull"
| "json_value (JStr s) = JStr s"
| "json_value (JDate None) = JNull"
| "json_value (JDate (Some t)) = JStr (toISOString t)"
| "json_value (JArr xs) = JArr (json_elems xs)"
| "json_value (JObj ps) = JObj (json_props ps)"
| "json_elems [] = []"
| "json_elems (x # xs) = json_value x # json_elems xs"
| "json_props [] = []"
| "json_props (p # ps) =
     (if snd p = JUndefined then json_props ps else (fst p, json_value (snd p)) # json_props ps)"

text \<open>The same for the value of one property: a missing property stays missing.\<close>

definition json_prop :: "jv \<Rightarrow> jv" where
  "json_prop v = (if v = JUndefined then JUndefined else json_value v)"

text \<open>
  The values that JSON can hold: no \<^verbatim>\<open>undefined\<close>, no number that is not finite, no
  date. The body of a request consists of such values.
\<close>

fun json_data :: "jv \<Rightarrow> bool"
  and json_data_elems :: "jv list \<Rightarrow> bool"
  and json_data_props :: "(string \<times> jv) list \<Rightarrow> bool" where
  "json_data JUndefined = False"
| "json_data JNull = True"
| "json_data (JBool b) = True"
| "json_data (JNum (Fin q)) = True"
| "json_data (JNum n) = False"
| "json_data (JStr s) = True"
| "json_data (JDate d) = False"
| "json_data (JArr xs) = json_data_elems xs"
| "json_data (JObj ps) = json_data_props ps"
| "json_data_elems [] = True"
| "json_data_elems (x # xs) = (json_data x \<and> json_data_elems xs)"
| "json_data_props [] = True"
| "json_data_props (p # ps) = (json_data (snd p) \<and> json_data_props ps)"


section \<open>The configuration\<close>

text \<open>
  The configuration of the route, after \<^verbatim>\<open>_.merge(config, base, req)\<close>. The
  properties the route reads have their own fields, with the types of the
  configuration surface: \<^verbatim>\<open>historySize\<close> and \<^verbatim>\<open>candleSize\<close> are whole numbers,
  \<^verbatim>\<open>batchPeriodProfitThreshold\<close> is a finite number or missing, \<^verbatim>\<open>batchSize\<close> and the
  flags are any value. A nested object may be missing (\<open>None\<close>). Every object keeps
  its other properties in a \<open>rest\<close> list, so that a configuration holds everything the
  compute engine may look at.
\<close>

record advisorConfig =
  historySize :: int
  candleSize :: int
  advisor_rest :: "(string \<times> jv) list"

record batchBacktestConfig =
  batchSize :: jv
  batchBacktest_rest :: "(string \<times> jv) list"

record batchConfig =
  synchronous :: jv
  noBigData :: jv
  batchPeriodProfitThreshold :: "rat option"
  batch_rest :: "(string \<times> jv) list"

record exporterData =
  roundtrips :: jv
  stratCandles :: jv
  data_rest :: "(string \<times> jv) list"

record exporterConfig =
  data :: "exporterData option"
  exporter_rest :: "(string \<times> jv) list"

record backtestConfig =
  daterange :: jv
  backtest_rest :: "(string \<times> jv) list"

record config =
  mode :: jv
  batch :: "batchConfig option"
  batchBacktest :: "batchBacktestConfig option"
  tradingAdvisor :: "advisorConfig option"
  backtest :: "backtestConfig option"
  backtestResultExporter :: "exporterConfig option"
  config_rest :: "(string \<times> jv) list"

text \<open>
  \<^verbatim>\<open>JSON.parse(JSON.stringify(config))\<close>, the deep clone of line 68, field by field.
\<close>

definition JSON_clone :: "config \<Rightarrow> config" where
  "JSON_clone c =
     \<lparr>mode = json_prop (mode c),
      batch = map_option (\<lambda>b. b\<lparr>synchronous := json_prop (synchronous b),
                 noBigData := json_prop (noBigData b),
                 batch_rest := json_props (batch_rest b)\<rparr>) (batch c),
      batchBacktest = map_option (\<lambda>b. b\<lparr>batchSize := json_prop (batchSize b),
                 batchBacktest_rest := json_props (batchBacktest_rest b)\<rparr>) (batchBacktest c),
      tradingAdvisor = map_option (\<lambda>a. a\<lparr>advisor_rest := json_props (advisor_rest a)\<rparr>)
                 (tradingAdvisor c),
      backtest = map_option (\<lambda>b. b\<lparr>daterange := json_prop (daterange b),
                 backtest_rest := json_props (backtest_rest b)\<rparr>) (backtest c),
      backtestResultExporter = map_option (\<lambda>x. x\<lparr>
                 data := map_option (\<lambda>d. d\<lparr>roundtrips := json_prop (roundtrips d),
                    stratCandles := json_prop (stratCandles d),
                    data_rest := json_props (data_rest d)\<rparr>) (data x),
                 exporter_rest := json_props (exporter_rest x)\<rparr>) (backtestResultExporter c),
      config_rest = json_props (config_rest c)\<rparr>"

text \<open>
  A configuration made of JSON data only: every property is missing or holds JSON
  data. The merge of a request body onto a base configuration of plain data is one.
\<close>

definition json_prop_data :: "jv \<Rightarrow> bool" where
  "json_prop_data v = (v = JUndefined \<or> json_data v)"

definition json_config :: "config \<Rightarrow> bool" where
  "json_config c =
     (json_prop_data (mode c) \<and> json_data_props (config_rest c) \<and>
      (case batch c of None \<Rightarrow> True | Some b \<Rightarrow>
         json_prop_data (synchronous b) \<and> json_prop_data (noBigData b) \<and>
         json_data_props (batch_rest b)) \<and>
      (case batchBacktest c of None \<Rightarrow> True | Some b \<Rightarrow>
         json_prop_data (batchSize b) \<and> json_data_props (batchBacktest_rest b)) \<and>
      (case tradingAdvisor c of None \<Rightarrow> True | Some a \<Rightarrow> json_data_props (advisor_rest a)) \<and>
      (case backtest c of None \<Rightarrow> True | Some b \<Rightarrow>
         json_prop_data (daterange b) \<and> json_data_props (backtest_rest b)) \<and>
      (case backtestResultExporter c of None \<Rightarrow> True | Some x \<Rightarrow>
         json_data_props (exporter_rest x) \<and>
         (case data x of None \<Rightarrow> True | Some d \<Rightarrow>
            json_prop_data (roundtrips d) \<and> json_prop_data (stratCandles d) \<and>
            json_data_props (data_rest d))))"

text \<open>
  \<^verbatim>\<open>getDateMonthSpansForYear(config)\<close>, lines 91 to 104. \<open>Inr None\<close> is the return
  value \<^verbatim>\<open>undefined\<close>, which the variable \<^verbatim>\<open>dateSpans\<close> keeps when no branch assigns
  it. Reading \<^verbatim>\<open>config.tradingAdvisor.historySize\<close> throws when
  \<^verbatim>\<open>config.tradingAdvisor\<close> is missing.
\<close>

definition getDateMonthSpansForYear :: "config \<Rightarrow> 'e error + dateSpan list option" where
  "getDateMonthSpansForYear c =
     (let batchSize = (case batchBacktest c of None \<Rightarrow> JUndefined | Some b \<Rightarrow> batchSize b)
      in case tradingAdvisor c of
           None \<Rightarrow> Inl TypeError
         | Some a \<Rightarrow>
            (let warmupMinutes = historySize a * candleSize a
             in if \<not> truthy batchSize \<or> batchSize = JStr ''1 month''
                then Inr (Some (monthlySpans warmupMinutes))
                else if batchSize = JStr ''1 quarter''
                then Inr (Some (quarterlySpans warmupMinutes))
                else if batchSize = JStr ''1 year''
                then Inr (Some (yearlySpans warmupMinutes))
                else Inr None))"


section \<open>The route\<close>

text \<open>
  The compute engine \<^verbatim>\<open>pipelineRunner(mode, config)\<close> is not part of the route; it is a
  parameter: a function of the mode and of the configuration it is handed, which
  resolves with a result (\<open>Inr\<close>) or rejects with an error (\<open>Inl\<close>).
\<close>

type_synonym ('e, 'r) runner = "string \<Rightarrow> config \<Rightarrow> 'e + 'r"

text \<open>
  Configuration objects live in a store, so that it shows which invocations are handed
  the same object. An address maps to an object with everything below it held by
  value: the route shares no nested object between two configuration objects, as the
  clone of line 68 is deep and each date span is an object of its own.
\<close>

type_synonym store = "nat \<Rightarrow> config option"

text \<open>The date span as the value of \<^verbatim>\<open>config.backtest.daterange\<close>.\<close>

definition jv_of_span :: "dateSpan \<Rightarrow> jv" where
  "jv_of_span sp = JObj [(''from'', JDate (span_from sp)), (''to'', JStr (span_to sp))]"

text \<open>
  The assignment \<^verbatim>\<open>config.backtest.daterange = dateSpan\<close>; it throws when
  \<^verbatim>\<open>config.backtest\<close> is missing.
\<close>

definition set_daterange :: "dateSpan \<Rightarrow> config \<Rightarrow> 'e error + config" where
  "set_daterange sp c =
     (case backtest c of
        None \<Rightarrow> Inl TypeError
      | Some b \<Rightarrow> Inr (c\<lparr>backtest := Some (b\<lparr>daterange := jv_of_span sp\<rparr>)\<rparr>))"

text \<open>
  The sequential loop, lines 60 to 65. The state is the store, the configuration
  objects handed to the engine so far (by address) and the results pushed so far. Every
  iteration assigns to the one object \<^verbatim>\<open>config\<close> at address \<open>a\<close> and hands that object
  to the engine; a rejection leaves the loop and the route.
\<close>

fun sequential_loop ::
  "('e, 'r) runner \<Rightarrow> nat \<Rightarrow> dateSpan list \<Rightarrow> store \<times> nat list \<times> 'r list \<Rightarrow>
     'e error + store \<times> nat list \<times> 'r list" where
  "sequential_loop run a [] st = Inr st"
| "sequential_loop run a (dateSpanCur # rest) (h, requests, backtests) =
     (case h a of
        None \<Rightarrow> Inl TypeError
      | Some c \<Rightarrow>
         (case set_daterange dateSpanCur c of
            Inl e \<Rightarrow> Inl e
          | Inr c' \<Rightarrow>
             (case run ''backtest'' c' of
                Inl e \<Rightarrow> Inl (EngineError e)
              | Inr resultCur \<Rightarrow>
                  sequential_loop run a rest
                    (h(a \<mapsto> c'), requests @ [a], backtests @ [resultCur]))))"

text \<open>
  The callback of \<^verbatim>\<open>dateSpans.map\<close>, lines 67 to 71, over all spans. Every call
  clones the object at address \<open>a\<close> into a new object (at the next free address
  \<open>n\<close>), assigns the span to the clone and hands the clone to the engine; the promise
  the engine returns is kept in its settled form.
\<close>

fun concurrent_map ::
  "('e, 'r) runner \<Rightarrow> nat \<Rightarrow> dateSpan list \<Rightarrow> store \<times> nat \<times> nat list \<times> ('e + 'r) list \<Rightarrow>
     'e error + store \<times> nat \<times> nat list \<times> ('e + 'r) list" where
  "concurrent_map run a [] st = Inr st"
| "concurrent_map run a (dateSpan # rest) (h, n, requests, promises) =
     (case h a of
        None \<Rightarrow> Inl TypeError
      | Some c \<Rightarrow>
         (case set_daterange dateSpan (JSON_clone c) of
            Inl e \<Rightarrow> Inl e
          | Inr configCur \<Rightarrow>
              concurrent_map run a rest
                (h(n \<mapsto> configCur), Suc n, requests @ [n],
                 promises @ [run ''backtest'' configCur])))"

text \<open>
  \<^verbatim>\<open>await Promise.all(promises)\<close>: the list of the results when every promise
  resolves; otherwise it rejects with the error of the promise that rejects first.
  Which one that is depends on timing, which is not part of the model: the outcome is
  the set of the values the \<^verbatim>\<open>await\<close> may produce.
\<close>

fun rejections :: "('e + 'r) list \<Rightarrow> 'e list" where
  "rejections [] = []"
| "rejections (Inl e # ps) = e # rejections ps"
| "rejections (Inr r # ps) = rejections ps"

fun resolutions :: "('e + 'r) list \<Rightarrow> 'r list" where
  "resolutions [] = []"
| "resolutions (Inl e # ps) = resolutions ps"
| "resolutions (Inr r # ps) = r # resolutions ps"

definition Promise_all :: "('e + 'r) list \<Rightarrow> ('e error + 'r list) set" where
  "Promise_all promises =
     (if rejections promises = [] then {Inr (resolutions promises)}
      else (\<lambda>e. Inl (EngineError e)) ` set (rejections promises))"

text \<open>
  The two execution paths of lines 57 to 72, from the configuration object at address
  \<open>0\<close> of a fresh store to the possible values of \<^verbatim>\<open>backtests\<close>. A missing list of
  spans (\<^verbatim>\<open>undefined\<close>) throws at \<^verbatim>\<open>dateSpans.length\<close>, respectively
  \<^verbatim>\<open>dateSpans.map\<close>.
\<close>

definition run_sequential ::
  "('e, 'r) runner \<Rightarrow> config \<Rightarrow> dateSpan list option \<Rightarrow> 'e error + 'r list" where
  "run_sequential run c dateSpans =
     (case dateSpans of
        None \<Rightarrow> Inl TypeError
      | Some sps \<Rightarrow>
         (case sequential_loop run 0 sps ((\<lambda>_. None)(0 \<mapsto> c), [], []) of
            Inl e \<Rightarrow> Inl e
          | Inr (h, requests, backtests) \<Rightarrow> Inr backtests))"

definition run_concurrent ::
  "('e, 'r) runner \<Rightarrow> config \<Rightarrow> dateSpan list option \<Rightarrow> ('e error + 'r list) set" where
  "run_concurrent run c dateSpans =
     (case dateSpans of
        None \<Rightarrow> {Inl TypeError}
      | Some sps \<Rightarrow>
         (case concurrent_map run 0 sps ((\<lambda>_. None)(0 \<mapsto> c), 1, [], []) of
            Inl e \<Rightarrow> {Inl e}
          | Inr (h, n, requests, promises) \<Rightarrow> Promise_all promises))"

text \<open>
  The response, lines 74 to 79: \<^verbatim>\<open>backtests\<close> with the three aggregates. Reading
  \<^verbatim>\<open>b.tradingAdvisor.stats\<close> throws when \<^verbatim>\<open>b.tradingAdvisor\<close> is missing; the filter
  drops the missing \<^verbatim>\<open>stats\<close>.
\<close>

record 'a response =
  ret_backtests :: "'a backtestResult_scheme list"
  ret_performanceReport :: "totalPerformanceReport option"
  ret_batchReport :: "batchReport option"
  ret_fakeReport :: fakeReport

fun advisor_stats :: "'a backtestResult_scheme list \<Rightarrow> 'e error + stats option list" where
  "advisor_stats [] = Inr []"
| "advisor_stats (b # bs) =
     (case backtestResult.tradingAdvisor b of
        None \<Rightarrow> Inl TypeError
      | Some t \<Rightarrow> (case advisor_stats bs of Inl e \<Rightarrow> Inl e | Inr ss \<Rightarrow> Inr (stats t # ss)))"

fun present :: "'a option list \<Rightarrow> 'a list" where
  "present [] = []"
| "present (None # xs) = present xs"
| "present (Some x # xs) = x # present xs"

definition respond :: "'a backtestResult_scheme list \<Rightarrow> rat \<Rightarrow> 'e error + 'a response" where
  "respond backtests threshold =
     (case getTotalPerformanceReport backtests (Some (Fin threshold)) of
        Inl e \<Rightarrow> Inl e
      | Inr pr \<Rightarrow>
         (case getBatchBacktestReport backtests of
            Inl e \<Rightarrow> Inl e
          | Inr br \<Rightarrow>
             (case advisor_stats backtests of
                Inl e \<Rightarrow> Inl e
              | Inr ss \<Rightarrow>
                 Inr \<lparr>ret_backtests = backtests, ret_performanceReport = pr,
                      ret_batchReport = br, ret_fakeReport = getFakeReport (present ss)\<rparr>)))"

text \<open>
  Lines 51 to 55: with \<^verbatim>\<open>config.batch.noBigData\<close> the two flags of the exporter are
  switched off, which throws when \<^verbatim>\<open>config.backtestResultExporter\<close> or its \<^verbatim>\<open>data\<close>
  is missing.
\<close>

definition strip_big_data :: "config \<Rightarrow> 'e error + config" where
  "strip_big_data c =
     (if (case batch c of None \<Rightarrow> False | Some b \<Rightarrow> truthy (noBigData b))
      then (case backtestResultExporter c of
              None \<Rightarrow> Inl TypeError
            | Some x \<Rightarrow>
               (case data x of
                  None \<Rightarrow> Inl TypeError
                | Some d \<Rightarrow>
                    Inr (c\<lparr>backtestResultExporter :=
                      Some (x\<lparr>data := Some (d\<lparr>roundtrips := JBool False,
                                                  stratCandles := JBool False\<rparr>)\<rparr>)\<rparr>)))
      else Inr c)"

text \<open>
  The route, lines 35 to 84, from the merged configuration: the set of the values it
  may settle with, \<open>Inr\<close> a response body and \<open>Inl\<close> a rejection. The threshold
  \<open>threshold\<close>, which is \<^verbatim>\<open>config.batch && config.batch.batchPeriodProfitThreshold || 0\<close>, is the configured
  number, and \<open>0\<close> when it is missing (or is \<open>0\<close>).
\<close>

definition batchBacktest ::
  "config \<Rightarrow> ('e, 'a backtestResult_scheme) runner \<Rightarrow> ('e error + 'a response) set" where
  "batchBacktest merged run =
     (let config = merged\<lparr>mode := JStr ''backtest''\<rparr>
      in case getDateMonthSpansForYear config of
           Inl e \<Rightarrow> {Inl e}
         | Inr dateSpans \<Rightarrow>
            (let threshold =
                   (case batch config of
                      None \<Rightarrow> 0
                    | Some b \<Rightarrow> (case batchPeriodProfitThreshold b of None \<Rightarrow> 0 | Some t \<Rightarrow> t))
             in case strip_big_data config of
                  Inl e \<Rightarrow> {Inl e}
                | Inr config' \<Rightarrow>
                   (let settled =
                          (if (case batch config' of None \<Rightarrow> False | Some b \<Rightarrow> truthy (synchronous b))
                           then {run_sequential run config' dateSpans}
                           else run_concurrent run config' dateSpans)
                    in (\<lambda>s. case s of Inl e \<Rightarrow> Inl e
                             | Inr backtests \<Rightarrow> respond backtests threshold)
                       ` settled)))"


section \<open>Example reports\<close>

text \<open>
  A \<^verbatim>\<open>performanceReport\<close> with profit \<open>p\<close> and fixed other properties, and a backtest
  result around a \<^verbatim>\<open>performanceReport\<close> that may be missing.
\<close>

definition pr :: "rat \<Rightarrow> performanceReport" where
  "pr p = \<lparr>losses = Some (Fin 1), profit = Some (Fin p), relativeProfit = Some (Fin (1/2)),
     trades = Some (Fin 3), yearlyProfit = Some (Fin 4), endPrice = Some (Fin 5),
     endTime = Some (Fin 6), startBalance = Some (Fin 7), startPrice = Some (Fin 8),
     startTime = Some (Fin 9)\<rparr>"

definition bt :: "performanceReport option \<Rightarrow> backtestResult" where
  "bt p = \<lparr>performanceReport = p, backtestResult.tradingAdvisor = None\<rparr>"

section \<open>Example configurations\<close>

text \<open>
  A merged configuration of plain data: ten candles of history at sixty minutes each,
  no batch options.
\<close>

definition example_config :: config where
  "example_config =
     \<lparr>mode = JUndefined, batch = None, batchBacktest = None,
      tradingAdvisor = Some \<lparr>historySize = 10, candleSize = 60,
        advisor_rest = [(''method'', JStr ''MACD'')]\<rparr>,
      backtest = Some \<lparr>daterange = JStr ''scan'',
        backtest_rest = [(''batchSize'', JNum (Fin 50))]\<rparr>,
      backtestResultExporter = Some \<lparr>
        data = Some \<lparr>roundtrips = JBool True, stratCandles = JBool True, data_rest = []\<rparr>,
        exporter_rest = [(''enabled'', JBool True)]\<rparr>,
      config_rest = [(''debug'', JBool True)]\<rparr>"

text \<open>The same configuration with a batch size.\<close>

definition with_batchSize :: "jv \<Rightarrow> config" where
  "with_batchSize v =
     example_config\<lparr>batchBacktest := Some \<lparr>batchSize = v, batchBacktest_rest = []\<rparr>\<rparr>"


section \<open>Example engines\<close>

text \<open>
  The \<^verbatim>\<open>to\<close> of the date span a configuration is scoped to, and a deterministic stub
  of the compute engine: it rejects with \<open>''engine failed''\<close> on the spans that end at
  one of the given timestamps, and resolves on every other span with a result whose
  profit is the year in which the span ends.
\<close>

definition span_to_of :: "config \<Rightarrow> string option" where
  "span_to_of c =
     (case backtest c of
        None \<Rightarrow> None
      | Some b \<Rightarrow>
         (case daterange b of
            JObj ps \<Rightarrow> (case map_of ps ''to'' of Some (JStr t) \<Rightarrow> Some t | _ \<Rightarrow> None)
          | _ \<Rightarrow> None))"

definition stub_result :: "int \<Rightarrow> backtestResult" where
  "stub_result y =
     \<lparr>performanceReport = Some (pr (of_int y)),
      backtestResult.tradingAdvisor =
        Some \<lparr>stats = Some \<lparr>profits = Some (Fin 1), profitTot = Some (Fin (of_int y))\<rparr>\<rparr>\<rparr>"

definition stub_engine :: "string list \<Rightarrow> (string, backtestResult) runner" where
  "stub_engine failing m c =
     (case span_to_of c of
        None \<Rightarrow> Inl ''no date span''
      | Some t \<Rightarrow>
          if t \<in> set failing then Inl ''engine failed''
          else (case digits 0 (take 4 t) of
                  None \<Rightarrow> Inl ''no date span''
                | Some y \<Rightarrow> Inr (stub_result y)))"

text \<open>
  The example configuration with yearly batches, in sequential (\<open>True\<close>) or concurrent
  (\<open>False\<close>) mode.
\<close>

definition batch_config :: "bool \<Rightarrow> config" where
  "batch_config sync =
     example_config\<lparr>
       batch := Some \<lparr>synchronous = JBool sync, noBigData = JBool True,
                      batchPeriodProfitThreshold = Some 2020, batch_rest = []\<rparr>,
       batchBacktest := Some \<lparr>batchSize = JStr ''1 year'', batchBacktest_rest = []\<rparr>\<rparr>"

text \<open>
  An assignment through the reference \<open>a\<close> after the dispatch:
  \<^verbatim>\<open>request.backtest.daterange = v\<close>.
\<close>

definition assign_daterange :: "nat \<Rightarrow> jv \<Rightarrow> store \<Rightarrow> store" where
  "assign_daterange a v h =
     (case h a of
        None \<Rightarrow> h
      | Some c \<Rightarrow>
         (case backtest c of
            None \<Rightarrow> h
          | Some b \<Rightarrow> h(a \<mapsto> c\<lparr>backtest := Some (b\<lparr>daterange := v\<rparr>)\<rparr>)))"



section \<open>The aggregator: auxiliary facts\<close>

lemma profits_of_present:
  "map performanceReport bs = map Some rs \<Longrightarrow> profits_of bs = Inr (map profit rs)"
proof (induction bs arbitrary: rs)
  case Nil
  then show ?case by simp
next
  case (Cons b bs)
  then obtain r rs' where rs: "rs = r # rs'" by (cases rs) auto
  with Cons show ?case by simp
qed

lemma profits_of_missing:
  "\<exists>b\<in>set bs. performanceReport b = None \<Longrightarrow> profits_of bs = Inl TypeError"
proof (induction bs)
  case Nil
  then show ?case by simp
next
  case (Cons a bs)
  show ?case
  proof (cases "performanceReport a")
    case None
    then show ?thesis by simp
  next
    case (Some p)
    with Cons.prems have "\<exists>b\<in>set bs. performanceReport b = None" by auto
    then have "profits_of bs = (Inl TypeError :: 'b error + jsval list)" by (rule Cons.IH)
    with Some show ?thesis by simp
  qed
qed

lemma foldl_reducer_Some: "bs \<noteq> [] \<Longrightarrow> \<exists>r. foldl reducer acc bs = Some r"
  by (induction bs arbitrary: acc rule: rev_induct) (auto simp: reducer_def Let_def)

lemma reduce_reports_nonempty:
  "bs \<noteq> [] \<Longrightarrow> reduce_reports bs = Inr (foldl reducer (performanceReport (hd bs)) (tl bs))"
  by (cases bs) simp_all

lemma foldl_reducer_present:
  "\<exists>r. foldl reducer (Some p) bs = Some r"
  by (cases "bs = []") (simp_all add: foldl_reducer_Some)

lemma num_min_Fin [simp]: "num_min (Fin a) (Fin b) = Fin (min a b)"
  by (simp add: num_min_def min_def)

lemma num_max_Fin [simp]: "num_max (Fin a) (Fin b) = Fin (max a b)"
  by (simp add: num_max_def max_def)

lemma foldl_num_min_Fin: "foldl num_min (Fin a) (map Fin ps) = Fin (fold min ps a)"
  by (induction ps arbitrary: a) (simp_all add: min.commute)

lemma foldl_num_max_Fin: "foldl num_max (Fin a) (map Fin ps) = Fin (fold max ps a)"
  by (induction ps arbitrary: a) (simp_all add: max.commute)

lemma Math_min_Fin: "ps \<noteq> [] \<Longrightarrow> Math_min (map (\<lambda>p. Some (Fin p)) ps) = Fin (Min (set ps))"
proof (cases ps)
  case Nil then show "ps \<noteq> [] \<Longrightarrow> ?thesis" by simp
next
  case (Cons p qs)
  have "Math_min (map (\<lambda>p. Some (Fin p)) ps) = foldl num_min (Fin p) (map Fin qs)"
    by (simp add: Math_min_def Cons num_min_def comp_def)
  then show ?thesis using Min.set_eq_fold[of p qs] by (simp add: foldl_num_min_Fin Cons)
qed

lemma Math_max_Fin: "ps \<noteq> [] \<Longrightarrow> Math_max (map (\<lambda>p. Some (Fin p)) ps) = Fin (Max (set ps))"
proof (cases ps)
  case Nil then show "ps \<noteq> [] \<Longrightarrow> ?thesis" by simp
next
  case (Cons p qs)
  have "Math_max (map (\<lambda>p. Some (Fin p)) ps) = foldl num_max (Fin p) (map Fin qs)"
    by (simp add: Math_max_def Cons num_max_def comp_def)
  then show ?thesis using Max.set_eq_fold[of p qs] by (simp add: foldl_num_max_Fin Cons)
qed

lemma count_ge_Fin:
  "length (filter (\<lambda>p. js_ge p (Some (Fin t))) (map (\<lambda>p. Some (Fin p)) ps)) = length (filter (\<lambda>p. p \<ge> t) ps)"
  by (induction ps) (simp_all add: js_ge_def)

lemma count_lt_Fin:
  "length (filter (\<lambda>p. js_lt p (Some (Fin t))) (map (\<lambda>p. Some (Fin p)) ps)) = length (filter (\<lambda>p. p < t) ps)"
  by (induction ps) (simp_all add: js_lt_def)

lemma present_hd_last:
  assumes "bs \<noteq> []" "map performanceReport bs = map Some rs"
  shows "performanceReport (hd bs) = Some (hd rs)" "performanceReport (last bs) = Some (last rs)" "rs \<noteq> []"
proof -
  from assms show ne: "rs \<noteq> []" by auto
  from assms ne show "performanceReport (hd bs) = Some (hd rs)"
    by (metis hd_map)
  from assms ne show "performanceReport (last bs) = Some (last rs)"
    by (metis last_map)
qed

lemma getTotalPerformanceReport_present:
  assumes "bs \<noteq> []" "map performanceReport bs = map Some rs"
  shows "\<exists>r. foldl reducer (Some (hd rs)) (tl bs) = Some r \<and>
     getTotalPerformanceReport bs thr = Inr (Some (performanceReport.extend
        (r\<lparr>endPrice := endPrice (last rs), endTime := endTime (last rs),
           startBalance := startBalance (hd rs), startPrice := startPrice (hd rs),
           startTime := startTime (hd rs)\<rparr>)
        (totalPerformanceReport.fields
           (Some (Math_min (map profit rs)))
           (Some (Math_max (map profit rs)))
           (length (filter (\<lambda>p. js_ge p (case thr of None \<Rightarrow> Some (Fin 0) | Some t \<Rightarrow> Some t)) (map profit rs)))
           (length (filter (\<lambda>p. js_lt p (case thr of None \<Rightarrow> Some (Fin 0) | Some t \<Rightarrow> Some t)) (map profit rs)))
           (length bs))))"
proof -
  note hl = present_hd_last[OF assms]
  obtain r where r: "foldl reducer (Some (hd rs)) (tl bs) = Some r"
    using foldl_reducer_present by blast
  have "getTotalPerformanceReport bs thr = Inr (Some (performanceReport.extend
        (r\<lparr>endPrice := endPrice (last rs), endTime := endTime (last rs),
           startBalance := startBalance (hd rs), startPrice := startPrice (hd rs),
           startTime := startTime (hd rs)\<rparr>)
        (totalPerformanceReport.fields
           (Some (Math_min (map profit rs)))
           (Some (Math_max (map profit rs)))
           (length (filter (\<lambda>p. js_ge p (case thr of None \<Rightarrow> Some (Fin 0) | Some t \<Rightarrow> Some t)) (map profit rs)))
           (length (filter (\<lambda>p. js_lt p (case thr of None \<Rightarrow> Some (Fin 0) | Some t \<Rightarrow> Some t)) (map profit rs)))
           (length bs))))"
    unfolding getTotalPerformanceReport_def Let_def
    by (simp only: reduce_reports_nonempty[OF assms(1)] hl(1,2) r profits_of_present[OF assms(2)]
          assms(1) length_greater_0_conv if_True not_False_eq_True sum.case option.case)
  with r show ?thesis by blast
qed


lemma total_selectors [simp]:
  "minProfit (performanceReport.extend r (totalPerformanceReport.fields a b c d e)) = a"
  "maxProfit (performanceReport.extend r (totalPerformanceReport.fields a b c d e)) = b"
  "periodsProfit (performanceReport.extend r (totalPerformanceReport.fields a b c d e)) = c"
  "periodsLoss (performanceReport.extend r (totalPerformanceReport.fields a b c d e)) = d"
  "periodsTotal (performanceReport.extend r (totalPerformanceReport.fields a b c d e)) = e"
  "losses (performanceReport.extend r m) = losses r"
  "profit (performanceReport.extend r m) = profit r"
  "relativeProfit (performanceReport.extend r m) = relativeProfit r"
  "trades (performanceReport.extend r m) = trades r"
  "yearlyProfit (performanceReport.extend r m) = yearlyProfit r"
  by (simp_all add: performanceReport.defs totalPerformanceReport.defs)

lemma getTotalPerformanceReport_missing:
  assumes "bs \<noteq> []" and "\<exists>b\<in>set bs. performanceReport b = None"
  shows "(getTotalPerformanceReport bs thr :: 'e error + totalPerformanceReport option) = Inl TypeError"
  unfolding getTotalPerformanceReport_def Let_def
  by (simp add: assms(1) reduce_reports_nonempty profits_of_missing[OF assms(2)] split: option.splits)

lemma getBatchBacktestReport_present:
  assumes "bs \<noteq> []" "map performanceReport bs = map Some rs"
  shows "(getBatchBacktestReport bs :: 'e error + batchReport option) = Inr (Some \<lparr>batchMinProfit = Some (Math_min (map profit rs)),
            batchMaxProfit = Some (Math_max (map profit rs))\<rparr>)"
  by (simp add: getBatchBacktestReport_def profits_of_present[OF assms(2)] assms(1))

lemma getBatchBacktestReport_missing:
  assumes "\<exists>b\<in>set bs. performanceReport b = None"
  shows "(getBatchBacktestReport bs :: 'e error + batchReport option) = Inl TypeError"
  by (simp add: getBatchBacktestReport_def profits_of_missing[OF assms])

lemma all_present:
  "(\<forall>b\<in>set bs. performanceReport b \<noteq> None) \<Longrightarrow> \<exists>rs. map performanceReport bs = map Some rs"
proof (induction bs)
  case Nil
  then show ?case by simp
next
  case (Cons a bs)
  then obtain rs where "map performanceReport bs = map Some rs" by auto
  moreover from Cons.prems obtain r where "performanceReport a = Some r" by auto
  ultimately have "map performanceReport (a # bs) = map Some (r # rs)" by simp
  then show ?case by blast
qed

lemma or_empty_reducer:
  "losses (or_empty (reducer res cur)) = js_add (losses (or_empty res)) (losses (or_empty (performanceReport cur)))"
  "profit (or_empty (reducer res cur)) = js_add (profit (or_empty res)) (profit (or_empty (performanceReport cur)))"
  "relativeProfit (or_empty (reducer res cur)) = js_add (relativeProfit (or_empty res)) (relativeProfit (or_empty (performanceReport cur)))"
  "trades (or_empty (reducer res cur)) = js_add (trades (or_empty res)) (trades (or_empty (performanceReport cur)))"
  "yearlyProfit (or_empty (reducer res cur)) = js_add (yearlyProfit (or_empty res)) (yearlyProfit (or_empty (performanceReport cur)))"
  by (simp_all add: reducer_def or_empty_def Let_def empty_object_def)

lemma foldl_reducer_field:
  assumes "\<And>res (cur :: 'a backtestResult_scheme). f (or_empty (reducer res cur)) =
             js_add (f (or_empty res)) (f (or_empty (performanceReport cur)))"
  shows "f (or_empty (foldl reducer acc (bs :: 'a backtestResult_scheme list))) =
           foldl js_add (f (or_empty acc)) (map (\<lambda>b. f (or_empty (performanceReport b))) bs)"
  by (induction bs arbitrary: acc) (simp_all add: assms)

lemma map_or_empty_present:
  assumes "map performanceReport bs = map Some rs"
  shows "map (\<lambda>b. f (or_empty (performanceReport b))) bs = map f rs"
proof -
  have "map (\<lambda>b. f (or_empty (performanceReport b))) bs = map (\<lambda>p. f (or_empty p)) (map performanceReport bs)"
    by simp
  also have "\<dots> = map f rs" unfolding assms by (simp add: or_empty_def)
  finally show ?thesis .
qed

lemma foldl_js_add_Fin:
  "exact_from a xs \<Longrightarrow>
     foldl js_add (Some (Fin a)) (map (\<lambda>x. Some (Fin x)) xs) = Some (Fin (a + sum_list xs))"
  by (induction xs arbitrary: a) (simp_all add: js_add_def is_double_def add.assoc)

lemma num_add_NaN [simp]: "num_add x NaN = NaN"
  by (cases x) simp_all

lemma foldl_js_add_NaN: "foldl js_add (Some NaN) xs = Some NaN"
  by (induction xs) (simp_all add: js_add_def)

lemma foldl_js_add_missing:
  "xs \<noteq> [] \<Longrightarrow> None \<in> set (a # xs) \<Longrightarrow> foldl js_add a xs = Some NaN"
proof (induction xs arbitrary: a)
  case Nil
  then show ?case by simp
next
  case (Cons x xs)
  show ?case
  proof (cases "a = None \<or> x = None")
    case True
    then have "js_add a x = Some NaN" by (auto simp: js_add_def)
    then show ?thesis by (simp add: foldl_js_add_NaN)
  next
    case False
    with Cons.prems have "xs \<noteq> []" "None \<in> set (js_add a x # xs)" by auto
    then show ?thesis using Cons.IH by simp
  qed
qed

lemma field_sum_Fin:
  assumes "rs \<noteq> []" "map f rs = map (\<lambda>x. Some (Fin x)) xs" "exact_sums xs"
  shows "foldl js_add (f (hd rs)) (map f (tl rs)) = Some (Fin (sum_list xs))"
proof -
  from assms obtain x xs' where xs: "xs = x # xs'" by (cases xs) auto
  from assms obtain r rs' where rs: "rs = r # rs'" by (cases rs) auto
  from assms(3) have "exact_from x xs'" by (simp add: exact_sums_def xs)
  then show ?thesis using assms(2) by (simp add: xs rs foldl_js_add_Fin)
qed

lemma field_sum_missing:
  assumes "2 \<le> length rs" "None \<in> set (map f rs)"
  shows "foldl js_add (f (hd rs)) (map f (tl rs)) = Some NaN"
proof -
  from assms(1) obtain r rs' where rs0: "rs = r # rs'" by (cases rs) auto
  with assms(1) have "rs' \<noteq> []" by auto
  note rs = rs0 this
  show ?thesis using assms(2) rs by (intro foldl_js_add_missing) auto
qed

text \<open>
  Additions that are not the ordinary sum: \<open>2 ^ 53 + 1\<close> lies between two doubles and
  is rounded to the even one, and the sum of two numbers of \<open>2 ^ 1023\<close> is beyond the
  largest double.
\<close>

lemma to_double_rounds: "to_double (2 ^ 53 + 1) = Fin (2 ^ 53)" "to_double (2 ^ 53 + 3) = Fin (2 ^ 53 + 4)"
  by code_simp+

lemma to_double_overflows: "to_double (2 ^ 1023 + 2 ^ 1023) = Infinity"
  by code_simp

lemma js_add_rounds: "js_add (Some (Fin (2 ^ 53))) (Some (Fin 1)) = Some (Fin (2 ^ 53))"
  by (simp only: js_add_def ToNumber.simps num_add.simps to_double_rounds)

lemma js_add_overflows: "js_add (Some (Fin (2 ^ 1023))) (Some (Fin (2 ^ 1023))) = Some Infinity"
  by (simp only: js_add_def ToNumber.simps num_add.simps to_double_overflows)

lemma exact_sums_overflow: "\<not> exact_sums [2 ^ 1023, 2 ^ 1023]"
  by (simp only: exact_sums_def list.case exact_from.simps is_double_def to_double_overflows) simp

lemma getTotalPerformanceReport_fields:
  assumes "bs \<noteq> []" and "map performanceReport bs = map Some rs"
  shows "\<exists>r. (getTotalPerformanceReport bs thr :: 'e error + totalPerformanceReport option) = Inr (Some r) \<and>
           losses r = foldl js_add (losses (hd rs)) (map losses (tl rs)) \<and>
           profit r = foldl js_add (profit (hd rs)) (map profit (tl rs)) \<and>
           relativeProfit r = foldl js_add (relativeProfit (hd rs)) (map relativeProfit (tl rs)) \<and>
           trades r = foldl js_add (trades (hd rs)) (map trades (tl rs)) \<and>
           yearlyProfit r = foldl js_add (yearlyProfit (hd rs)) (map yearlyProfit (tl rs))"
proof -
  from assms have tl: "map performanceReport (tl bs) = map Some (tl rs)"
    by (metis map_tl)
  from getTotalPerformanceReport_present[OF assms, of thr]
  obtain r where r: "foldl reducer (Some (hd rs)) (tl bs) = Some r"
    and t: "(getTotalPerformanceReport bs thr :: 'e error + totalPerformanceReport option) =
       Inr (Some (performanceReport.extend
        (r\<lparr>endPrice := endPrice (last rs), endTime := endTime (last rs),
           startBalance := startBalance (hd rs), startPrice := startPrice (hd rs),
           startTime := startTime (hd rs)\<rparr>)
        (totalPerformanceReport.fields
           (Some (Math_min (map profit rs)))
           (Some (Math_max (map profit rs)))
           (length (filter (\<lambda>p. js_ge p (case thr of None \<Rightarrow> Some (Fin 0) | Some t \<Rightarrow> Some t)) (map profit rs)))
           (length (filter (\<lambda>p. js_lt p (case thr of None \<Rightarrow> Some (Fin 0) | Some t \<Rightarrow> Some t)) (map profit rs)))
           (length bs))))"
    by blast
  have f: "f r = foldl js_add (f (hd rs)) (map f (tl rs))"
    if "\<And>res cur. f (or_empty (reducer res cur)) =
             js_add (f (or_empty res)) (f (or_empty (performanceReport (cur :: 'a backtestResult_scheme))))" for f
  proof -
    have "f (or_empty (Some r)) = foldl js_add (f (or_empty (Some (hd rs)))) (map f (tl rs))"
      using foldl_reducer_field[of f "Some (hd rs)" "tl bs", OF that]
      unfolding r map_or_empty_present[OF tl] .
    then show ?thesis by (simp add: or_empty_def)
  qed
  show ?thesis
    unfolding t
    apply (intro exI conjI refl)
    apply (simp only: total_selectors)
    apply (simp_all add: f[of losses, OF or_empty_reducer(1)] f[of profit, OF or_empty_reducer(2)]
          f[of relativeProfit, OF or_empty_reducer(3)] f[of trades, OF or_empty_reducer(4)]
          f[of yearlyProfit, OF or_empty_reducer(5)])
    done
qed

section \<open>The aggregator: period counters and extremes\<close>

text \<open>
  Claim C1. For every non-empty list of result reports (each carrying a
  \<^verbatim>\<open>performanceReport\<close> whose \<^verbatim>\<open>profit\<close> is a finite number) and every profit
  threshold \<open>t\<close> (given as a number, or left out, which is the default \<open>0\<close>),
  \<^verbatim>\<open>getTotalPerformanceReport\<close> returns a report in which \<^verbatim>\<open>periodsProfit\<close> is the
  number of reports with profit at least \<open>t\<close>, \<^verbatim>\<open>periodsLoss\<close> the number with profit
  below \<open>t\<close>, \<^verbatim>\<open>periodsTotal\<close> the length of the list, and \<^verbatim>\<open>minProfit\<close> and
  \<^verbatim>\<open>maxProfit\<close> the least and the greatest profit.
\<close>

theorem getTotalPerformanceReport_periods_extremes:
  assumes "bs \<noteq> []"
    and "map performanceReport bs = map Some rs"
    and "map profit rs = map (\<lambda>p. Some (Fin p)) ps"
    and "thr = Some (Fin t) \<or> (thr = None \<and> t = 0)"
  shows "\<exists>r. (getTotalPerformanceReport bs thr :: 'e error + totalPerformanceReport option) = Inr (Some r) \<and>
           periodsProfit r = length (filter (\<lambda>p. t \<le> p) ps) \<and>
           periodsLoss r = length (filter (\<lambda>p. p < t) ps) \<and>
           periodsTotal r = length bs \<and>
           minProfit r = Some (Fin (Min (set ps))) \<and>
           maxProfit r = Some (Fin (Max (set ps)))"
proof -
  from assms(1,2,3) have ne: "ps \<noteq> []" by auto
  have thr: "(case thr of None \<Rightarrow> Some (Fin 0) | Some t \<Rightarrow> Some t) = Some (Fin t)"
    using assms(4) by auto
  from getTotalPerformanceReport_present[OF assms(1,2), of thr]
  obtain r where "(getTotalPerformanceReport bs thr :: 'e error + totalPerformanceReport option) = Inr (Some (performanceReport.extend
        (r\<lparr>endPrice := endPrice (last rs), endTime := endTime (last rs),
           startBalance := startBalance (hd rs), startPrice := startPrice (hd rs),
           startTime := startTime (hd rs)\<rparr>)
        (totalPerformanceReport.fields
           (Some (Math_min (map profit rs)))
           (Some (Math_max (map profit rs)))
           (length (filter (\<lambda>p. js_ge p (Some (Fin t))) (map profit rs)))
           (length (filter (\<lambda>p. js_lt p (Some (Fin t))) (map profit rs)))
           (length bs))))"
    unfolding thr by blast
  then show ?thesis
    by (simp add: assms(3) Math_min_Fin[OF ne] Math_max_Fin[OF ne] count_ge_Fin count_lt_Fin
          del: length_filter_map)
qed

text \<open>
  Claim C1 at the profits \<open>[-5, 10, 0, 20]\<close> with threshold \<open>0\<close>: three periods of
  profit, one of loss, four in total, extremes \<open>-5\<close> and \<open>20\<close>.
\<close>

theorem getTotalPerformanceReport_periods_extremes_witness:
  "\<exists>r. (getTotalPerformanceReport [bt (Some (pr (-5))), bt (Some (pr 10)), bt (Some (pr 0)), bt (Some (pr 20))]
           (Some (Fin 0)) :: unit error + totalPerformanceReport option) = Inr (Some r) \<and>
       periodsProfit r = 3 \<and> periodsLoss r = 1 \<and> periodsTotal r = 4 \<and>
       minProfit r = Some (Fin (-5)) \<and> maxProfit r = Some (Fin 20)"
  using getTotalPerformanceReport_periods_extremes[of "[bt (Some (pr (-5))), bt (Some (pr 10)), bt (Some (pr 0)), bt (Some (pr 20))]"
          "[pr (-5), pr 10, pr 0, pr 20]" "[-5, 10, 0, 20]" "Some (Fin 0)" 0, where ?'e = unit]
  by (simp add: bt_def pr_def eval_nat_numeral)

section \<open>The aggregator: no reports\<close>

text \<open>
  Claim C2. On the empty list \<^verbatim>\<open>getTotalPerformanceReport\<close> and
  \<^verbatim>\<open>getBatchBacktestReport\<close> both return \<^verbatim>\<open>undefined\<close> (no object, and no error),
  whatever the threshold.
\<close>

theorem aggregators_empty_undefined: "getTotalPerformanceReport [] thr = Inr None \<and> getBatchBacktestReport [] = Inr None"
  by (simp add: getTotalPerformanceReport_def getBatchBacktestReport_def)

section \<open>The aggregator: summed properties\<close>

text \<open>
  Claim C3, as stated, at two reports of which the second has no \<^verbatim>\<open>losses\<close>: the
  claim asks for the sum \<open>1 + 0 = 1\<close>, the code adds \<^verbatim>\<open>undefined\<close> to \<open>1\<close> and
  returns \<^verbatim>\<open>NaN\<close> for \<^verbatim>\<open>losses\<close>.
\<close>

theorem missing_field_sum_counterexample:
  "(getTotalPerformanceReport [bt (Some (pr 1)), bt (Some ((pr 2)\<lparr>losses := None\<rparr>))] (Some (Fin 0))
      :: unit error + totalPerformanceReport option) =
   Inr (Some \<lparr>losses = Some NaN, profit = Some (Fin 3), relativeProfit = Some (Fin 1),
     trades = Some (Fin 6), yearlyProfit = Some (Fin 8), endPrice = Some (Fin 5),
     endTime = Some (Fin 6), startBalance = Some (Fin 7), startPrice = Some (Fin 8),
     startTime = Some (Fin 9), minProfit = Some (Fin 1), maxProfit = Some (Fin 2),
     periodsProfit = 2, periodsLoss = 0, periodsTotal = 2\<rparr>)"
  by code_simp

text \<open>
  Claim C3, amended. For every non-empty list of reports each carrying a
  \<^verbatim>\<open>performanceReport\<close>, \<^verbatim>\<open>getTotalPerformanceReport\<close> returns a report, and each of
  \<^verbatim>\<open>losses\<close>, \<^verbatim>\<open>profit\<close>, \<^verbatim>\<open>relativeProfit\<close>, \<^verbatim>\<open>trades\<close> and \<^verbatim>\<open>yearlyProfit\<close>
  is the sum of that property over the reports, added with \<^verbatim>\<open>+\<close> from the first
  report to the last, so with the rounding and the overflow of doubles at every
  addition. It is the ordinary sum whenever every report holds a finite number there
  and no addition rounds (the running total is a double after each addition). A missing property is not counted as zero: with two or more
  reports, a property missing from any of them makes its sum \<^verbatim>\<open>NaN\<close>.
\<close>

theorem getTotalPerformanceReport_sums:
  assumes "bs \<noteq> []" and "map performanceReport bs = map Some rs"
  shows "\<exists>r. (getTotalPerformanceReport bs thr :: 'e error + totalPerformanceReport option) = Inr (Some r) \<and>
     losses r = foldl js_add (losses (hd rs)) (map losses (tl rs)) \<and>
     profit r = foldl js_add (profit (hd rs)) (map profit (tl rs)) \<and>
     relativeProfit r = foldl js_add (relativeProfit (hd rs)) (map relativeProfit (tl rs)) \<and>
     trades r = foldl js_add (trades (hd rs)) (map trades (tl rs)) \<and>
     yearlyProfit r = foldl js_add (yearlyProfit (hd rs)) (map yearlyProfit (tl rs)) \<and>
     (\<forall>xs. map losses rs = map (\<lambda>x. Some (Fin x)) xs \<and> exact_sums xs
        \<longrightarrow> losses r = Some (Fin (sum_list xs))) \<and>
     (\<forall>xs. map profit rs = map (\<lambda>x. Some (Fin x)) xs \<and> exact_sums xs
        \<longrightarrow> profit r = Some (Fin (sum_list xs))) \<and>
     (\<forall>xs. map relativeProfit rs = map (\<lambda>x. Some (Fin x)) xs \<and> exact_sums xs
        \<longrightarrow> relativeProfit r = Some (Fin (sum_list xs))) \<and>
     (\<forall>xs. map trades rs = map (\<lambda>x. Some (Fin x)) xs \<and> exact_sums xs
        \<longrightarrow> trades r = Some (Fin (sum_list xs))) \<and>
     (\<forall>xs. map yearlyProfit rs = map (\<lambda>x. Some (Fin x)) xs \<and> exact_sums xs
        \<longrightarrow> yearlyProfit r = Some (Fin (sum_list xs))) \<and>
     (2 \<le> length rs \<and> None \<in> set (map losses rs) \<longrightarrow> losses r = Some NaN) \<and>
     (2 \<le> length rs \<and> None \<in> set (map profit rs) \<longrightarrow> profit r = Some NaN) \<and>
     (2 \<le> length rs \<and> None \<in> set (map relativeProfit rs) \<longrightarrow> relativeProfit r = Some NaN) \<and>
     (2 \<le> length rs \<and> None \<in> set (map trades rs) \<longrightarrow> trades r = Some NaN) \<and>
     (2 \<le> length rs \<and> None \<in> set (map yearlyProfit rs) \<longrightarrow> yearlyProfit r = Some NaN)"
proof -
  from assms have ne: "rs \<noteq> []" by auto
  from getTotalPerformanceReport_fields[OF assms, of thr]
  obtain r where t: "(getTotalPerformanceReport bs thr :: 'e error + totalPerformanceReport option) = Inr (Some r)"
    and l: "losses r = foldl js_add (losses (hd rs)) (map losses (tl rs))"
    and p: "profit r = foldl js_add (profit (hd rs)) (map profit (tl rs))"
    and rp: "relativeProfit r = foldl js_add (relativeProfit (hd rs)) (map relativeProfit (tl rs))"
    and tr: "trades r = foldl js_add (trades (hd rs)) (map trades (tl rs))"
    and y: "yearlyProfit r = foldl js_add (yearlyProfit (hd rs)) (map yearlyProfit (tl rs))"
    by blast
  have el: "losses r = Some (Fin (sum_list xs))"
    if "map losses rs = map (\<lambda>x. Some (Fin x)) xs" "exact_sums xs" for xs
    unfolding l by (rule field_sum_Fin[OF ne that])
  have ep: "profit r = Some (Fin (sum_list xs))"
    if "map profit rs = map (\<lambda>x. Some (Fin x)) xs" "exact_sums xs" for xs
    unfolding p by (rule field_sum_Fin[OF ne that])
  have erp: "relativeProfit r = Some (Fin (sum_list xs))"
    if "map relativeProfit rs = map (\<lambda>x. Some (Fin x)) xs" "exact_sums xs" for xs
    unfolding rp by (rule field_sum_Fin[OF ne that])
  have etr: "trades r = Some (Fin (sum_list xs))"
    if "map trades rs = map (\<lambda>x. Some (Fin x)) xs" "exact_sums xs" for xs
    unfolding tr by (rule field_sum_Fin[OF ne that])
  have ey: "yearlyProfit r = Some (Fin (sum_list xs))"
    if "map yearlyProfit rs = map (\<lambda>x. Some (Fin x)) xs" "exact_sums xs" for xs
    unfolding y by (rule field_sum_Fin[OF ne that])
  have ml: "losses r = Some NaN" if "2 \<le> length rs" "None \<in> set (map losses rs)"
    unfolding l by (rule field_sum_missing[OF that])
  have mp: "profit r = Some NaN" if "2 \<le> length rs" "None \<in> set (map profit rs)"
    unfolding p by (rule field_sum_missing[OF that])
  have mrp: "relativeProfit r = Some NaN" if "2 \<le> length rs" "None \<in> set (map relativeProfit rs)"
    unfolding rp by (rule field_sum_missing[OF that])
  have mtr: "trades r = Some NaN" if "2 \<le> length rs" "None \<in> set (map trades rs)"
    unfolding tr by (rule field_sum_missing[OF that])
  have my: "yearlyProfit r = Some NaN" if "2 \<le> length rs" "None \<in> set (map yearlyProfit rs)"
    unfolding y by (rule field_sum_missing[OF that])
  show ?thesis
  proof (intro exI conjI allI impI)
    show "(getTotalPerformanceReport bs thr :: 'e error + totalPerformanceReport option) = Inr (Some r)"
      by (rule t)
  qed (use l p rp tr y el ep erp etr ey ml mp mrp mtr my in blast)+
qed

text \<open>
  Claim C3, amended, at two reports of which the second has no \<^verbatim>\<open>trades\<close>: four
  ordinary sums, none of which rounds, and \<^verbatim>\<open>NaN\<close> for \<^verbatim>\<open>trades\<close>.
\<close>

theorem getTotalPerformanceReport_sums_witness:
  "\<exists>r. (getTotalPerformanceReport [bt (Some (pr 1)), bt (Some ((pr 2)\<lparr>trades := None\<rparr>))] None
           :: unit error + totalPerformanceReport option) = Inr (Some r) \<and>
       losses r = Some (Fin 2) \<and> profit r = Some (Fin 3) \<and> relativeProfit r = Some (Fin 1) \<and>
       trades r = Some NaN \<and> yearlyProfit r = Some (Fin 8)"
proof -
  let ?bs = "[bt (Some (pr 1)), bt (Some ((pr 2)\<lparr>trades := None\<rparr>))]"
  let ?rs = "[pr 1, (pr 2)\<lparr>trades := None\<rparr>]"
  have 1: "?bs \<noteq> []" and 2: "map performanceReport ?bs = map Some ?rs"
    by (simp_all add: bt_def)
  from getTotalPerformanceReport_sums[OF 1 2, of None, where ?'e = unit]
  obtain r where r: "(getTotalPerformanceReport ?bs None :: unit error + totalPerformanceReport option) = Inr (Some r)"
    and l: "\<forall>xs. map losses ?rs = map (\<lambda>x. Some (Fin x)) xs \<and> exact_sums xs \<longrightarrow> losses r = Some (Fin (sum_list xs))"
    and p: "\<forall>xs. map profit ?rs = map (\<lambda>x. Some (Fin x)) xs \<and> exact_sums xs \<longrightarrow> profit r = Some (Fin (sum_list xs))"
    and rp: "\<forall>xs. map relativeProfit ?rs = map (\<lambda>x. Some (Fin x)) xs \<and> exact_sums xs \<longrightarrow> relativeProfit r = Some (Fin (sum_list xs))"
    and y: "\<forall>xs. map yearlyProfit ?rs = map (\<lambda>x. Some (Fin x)) xs \<and> exact_sums xs \<longrightarrow> yearlyProfit r = Some (Fin (sum_list xs))"
    and t: "2 \<le> length ?rs \<and> None \<in> set (map trades ?rs) \<longrightarrow> trades r = Some NaN"
    by (elim exE conjE) (rule that; assumption)
  have e: "exact_sums [1, 1]" "exact_sums [1, 2]" "exact_sums [1 / 2, 1 / 2]" "exact_sums [4, 4]"
    by code_simp+
  from l[rule_format, of "[1, 1]"] e(1) have "losses r = Some (Fin 2)" by (simp add: pr_def)
  moreover from p[rule_format, of "[1, 2]"] e(2) have "profit r = Some (Fin 3)" by (simp add: pr_def)
  moreover from rp[rule_format, of "[1/2, 1/2]"] e(3) have "relativeProfit r = Some (Fin 1)" by (simp add: pr_def)
  moreover from y[rule_format, of "[4, 4]"] e(4) have "yearlyProfit r = Some (Fin 8)" by (simp add: pr_def)
  moreover from t have "trades r = Some NaN" by (simp add: pr_def)
  ultimately show ?thesis using r by blast
qed

section \<open>The aggregator: a report without performanceReport\<close>

text \<open>
  Claim C4. If some report of a non-empty list has no \<^verbatim>\<open>performanceReport\<close>,
  \<^verbatim>\<open>getTotalPerformanceReport\<close> throws (a \<^verbatim>\<open>TypeError\<close>, from reading a property of
  \<^verbatim>\<open>undefined\<close>); it returns neither a report with \<^verbatim>\<open>NaN\<close> sums nor any other value.
\<close>

theorem getTotalPerformanceReport_missing_report_throws:
  assumes "bs \<noteq> []" and "\<exists>b\<in>set bs. performanceReport b = None"
  shows "(getTotalPerformanceReport bs thr :: 'e error + totalPerformanceReport option) = Inl TypeError"
  using assms by (rule getTotalPerformanceReport_missing)

text \<open>Claim C4 at three reports of which the middle one has no \<^verbatim>\<open>performanceReport\<close>.\<close>

theorem getTotalPerformanceReport_missing_report_throws_witness:
  "(getTotalPerformanceReport [bt (Some (pr 1)), bt None, bt (Some (pr 2))] (Some (Fin 0))
      :: unit error + totalPerformanceReport option) = Inl TypeError"
  using getTotalPerformanceReport_missing_report_throws[of "[bt (Some (pr 1)), bt None, bt (Some (pr 2))]" "Some (Fin 0)", where ?'e = unit]
  by (simp add: bt_def)

section \<open>The batch report as a projection of the total report\<close>

text \<open>
  Claim C10. For every non-empty list of reports and every threshold: when every
  report carries a \<^verbatim>\<open>performanceReport\<close>, both functions return an object, the
  \<^verbatim>\<open>minProfit\<close> and \<^verbatim>\<open>maxProfit\<close> of \<^verbatim>\<open>getBatchBacktestReport\<close> equal those of
  \<^verbatim>\<open>getTotalPerformanceReport\<close>, and they are \<^verbatim>\<open>Math.min\<close> and \<^verbatim>\<open>Math.max\<close> of the
  reports' profits; otherwise both functions throw the same \<^verbatim>\<open>TypeError\<close>.
\<close>

theorem getBatchBacktestReport_projection:
  assumes "bs \<noteq> []"
  shows "if \<forall>b\<in>set bs. performanceReport b \<noteq> None
         then \<exists>r b. (getTotalPerformanceReport bs thr :: 'e error + totalPerformanceReport option) = Inr (Some r) \<and>
                (getBatchBacktestReport bs :: 'e error + batchReport option) = Inr (Some b) \<and>
                batchMinProfit b = minProfit r \<and> batchMaxProfit b = maxProfit r \<and>
                minProfit r = Some (Math_min (map (\<lambda>b. profit (or_empty (performanceReport b))) bs)) \<and>
                maxProfit r = Some (Math_max (map (\<lambda>b. profit (or_empty (performanceReport b))) bs))
         else (getTotalPerformanceReport bs thr :: 'e error + totalPerformanceReport option) = Inl TypeError \<and>
              (getBatchBacktestReport bs :: 'e error + batchReport option) = Inl TypeError"
proof (cases "\<forall>b\<in>set bs. performanceReport b \<noteq> None")
  case True
  then obtain rs where rs: "map performanceReport bs = map Some rs"
    using all_present by blast
  have "map (\<lambda>b. or_empty (performanceReport b)) bs = map or_empty (map performanceReport bs)"
    by simp
  also have "\<dots> = rs" unfolding rs by (simp add: or_empty_def comp_def)
  finally have "map (\<lambda>b. profit (or_empty (performanceReport b))) bs = map profit rs"
    by (metis (no_types, lifting) map_map comp_apply map_eq_conv)
  moreover obtain r where "(getTotalPerformanceReport bs thr :: 'e error + totalPerformanceReport option) = Inr (Some r)" 
      "minProfit r = Some (Math_min (map profit rs))" "maxProfit r = Some (Math_max (map profit rs))"
    using getTotalPerformanceReport_present[OF assms rs, of thr] by force
  moreover have "(getBatchBacktestReport bs :: 'e error + batchReport option) =
      Inr (Some \<lparr>batchMinProfit = Some (Math_min (map profit rs)),
            batchMaxProfit = Some (Math_max (map profit rs))\<rparr>)"
    by (rule getBatchBacktestReport_present[OF assms rs])
  ultimately show ?thesis
    using True by simp
next
  case False
  then have ex: "\<exists>b\<in>set bs. performanceReport b = None" by auto
  have "(getTotalPerformanceReport bs thr :: 'e error + totalPerformanceReport option) = Inl TypeError"
    by (rule getTotalPerformanceReport_missing[OF assms ex])
  moreover have "(getBatchBacktestReport bs :: 'e error + batchReport option) = Inl TypeError"
    by (rule getBatchBacktestReport_missing[OF ex])
  ultimately show ?thesis using False by simp
qed

text \<open>Claim C10 at two reports with profits \<open>4\<close> and \<open>-1\<close>.\<close>

theorem getBatchBacktestReport_projection_witness:
  "\<exists>r b. (getTotalPerformanceReport [bt (Some (pr 4)), bt (Some (pr (-1)))] None
             :: unit error + totalPerformanceReport option) = Inr (Some r) \<and>
     (getBatchBacktestReport [bt (Some (pr 4)), bt (Some (pr (-1)))] :: unit error + batchReport option) = Inr (Some b) \<and>
     batchMinProfit b = minProfit r \<and> batchMaxProfit b = maxProfit r \<and>
     minProfit r = Some (Fin (-1)) \<and> maxProfit r = Some (Fin 4)"
  using getBatchBacktestReport_projection[of "[bt (Some (pr 4)), bt (Some (pr (-1)))]" None, where ?'e = unit]
  by (simp add: bt_def pr_def or_empty_def Math_min_def Math_max_def num_min_def num_max_def)

section \<open>The span generator: auxiliary facts\<close>

lemma subtract_minutes_0: "subtract_minutes 0 m = m"
  by (cases m) (simp_all add: subtract_minutes_def)

lemma span_to_span: "span_to (span w a b) = b"
  by (simp add: span_def)

lemma monthly_to: "map span_to (monthlySpans w) = map span_to (monthlySpans 0)"
  unfolding monthlySpans_def list.map span_to_span by (rule refl)

lemma monthly_from: "map span_from (monthlySpans w) = map (subtract_minutes w) (map span_from (monthlySpans 0))"
  by (simp only: monthlySpans_def list.map span_def dateSpan.select_convs subtract_minutes_0)

lemma quarterly_to: "map span_to (quarterlySpans w) = map span_to (quarterlySpans 0)"
  unfolding quarterlySpans_def list.map span_to_span by (rule refl)

lemma quarterly_from: "map span_from (quarterlySpans w) = map (subtract_minutes w) (map span_from (quarterlySpans 0))"
  by (simp only: quarterlySpans_def list.map span_def dateSpan.select_convs subtract_minutes_0)

lemma yearly_to: "map span_to (yearlySpans w) = map span_to (yearlySpans 0)"
  unfolding yearlySpans_def list.map span_to_span by (rule refl)

lemma yearly_from: "map span_from (yearlySpans w) = map (subtract_minutes w) (map span_from (yearlySpans 0))"
  by (simp only: yearlySpans_def list.map span_def dateSpan.select_convs subtract_minutes_0)

lemma spans_partition:
  fixes spans0 spans :: "dateSpan list"
  assumes to: "map span_to spans = map span_to spans0"
      and fr: "map span_from spans = map (subtract_minutes w) (map span_from spans0)"
      and fr0: "map span_from spans0 = map (partition_start k) (map span_to spans0)"
      and ne: "list_all (partition_nonempty k) (map span_to spans0)"
      and rg: "list_all (partition_in_range k) (map span_to spans0)"
      and so: "sorted_wrt (ends_before k) (map span_to spans0)"
      and i: "i < length spans"
      and w: "0 \<le> w"
  shows "\<exists>s e. partition_start k (span_to (spans ! i)) = Some s \<and>
           moment (span_to (spans ! i)) = Some e \<and> s < e \<and>
           span_from (spans ! i) =
             (if - 8640000000000000 \<le> s - w * 60000 then Some (s - w * 60000) else None) \<and>
           (w \<le> 144025099200 \<longrightarrow> span_from (spans ! i) = Some (s - w * 60000)) \<and>
           (\<forall>j<length spans. i < j \<longrightarrow>
              (\<exists>s'. partition_start k (span_to (spans ! j)) = Some s' \<and> e \<le> s'))"
proof -
  have len: "length spans0 = length spans"
    using to by (metis length_map)
  have toi: "span_to (spans ! j) = map span_to spans0 ! j" if "j < length spans" for j
    using that to by (metis nth_map)
  from ne i len have "partition_nonempty k (map span_to spans0 ! i)"
    by (simp add: list_all_length)
  then obtain s e where s: "partition_start k (map span_to spans0 ! i) = Some s"
    and e: "moment (map span_to spans0 ! i) = Some e" and se: "s < e"
    by (auto simp: partition_nonempty_def split: option.splits)
  from rg i len have "partition_in_range k (map span_to spans0 ! i)"
    by (simp add: list_all_length)
  with s have lo: "1505952000000 \<le> s" and hi: "s \<le> 8640000000000000"
    by (simp_all add: partition_in_range_def)
  have "span_from (spans ! i) = map span_from spans ! i"
    using i by simp
  also have "\<dots> = subtract_minutes w (partition_start k (map span_to spans0 ! i))"
    unfolding fr fr0 using i len by simp
  also have "\<dots> = (if w = 0 then Some s else time_clip (s - w * 60000))"
    by (simp add: s subtract_minutes_def)
  also have "\<dots> = (if - 8640000000000000 \<le> s - w * 60000 then Some (s - w * 60000) else None)"
    using w lo hi by (simp add: time_clip_def abs_le_iff)
  finally have f: "span_from (spans ! i) =
      (if - 8640000000000000 \<le> s - w * 60000 then Some (s - w * 60000) else None)" .
  have g: "span_from (spans ! i) = Some (s - w * 60000)" if "w \<le> 144025099200"
    unfolding f using that lo by simp
  have later: "\<exists>s'. partition_start k (span_to (spans ! j)) = Some s' \<and> e \<le> s'"
    if "j < length spans" "i < j" for j
  proof -
    from so that len have "ends_before k (map span_to spans0 ! i) (map span_to spans0 ! j)"
      by (simp add: sorted_wrt_iff_nth_less)
    with e show ?thesis
      by (auto simp: ends_before_def toi[OF that(1)] split: option.splits)
  qed
  from s e have s': "partition_start k (span_to (spans ! i)) = Some s"
    and e': "moment (span_to (spans ! i)) = Some e"
    by (simp_all add: toi[OF i])
  show ?thesis
    using s' e' se f g later by blast
qed

lemma monthly_from0: "map span_from (monthlySpans 0) = map (partition_start 1) (map span_to (monthlySpans 0))"
  by code_simp

lemma monthly_nonempty: "list_all (partition_nonempty 1) (map span_to (monthlySpans 0))"
  by code_simp

lemma monthly_in_range: "list_all (partition_in_range 1) (map span_to (monthlySpans 0))"
  by code_simp

lemma monthly_sorted: "sorted_wrt (ends_before 1) (map span_to (monthlySpans 0))"
  by code_simp

lemma quarterly_from0: "map span_from (quarterlySpans 0) = map (partition_start 3) (map span_to (quarterlySpans 0))"
  by code_simp

lemma quarterly_nonempty: "list_all (partition_nonempty 3) (map span_to (quarterlySpans 0))"
  by code_simp

lemma quarterly_in_range: "list_all (partition_in_range 3) (map span_to (quarterlySpans 0))"
  by code_simp

lemma quarterly_sorted: "sorted_wrt (ends_before 3) (map span_to (quarterlySpans 0))"
  by code_simp

lemma yearly_from0: "map span_from (yearlySpans 0) = map (partition_start 12) (map span_to (yearlySpans 0))"
  by code_simp

lemma yearly_nonempty: "list_all (partition_nonempty 12) (map span_to (yearlySpans 0))"
  by code_simp

lemma yearly_in_range: "list_all (partition_in_range 12) (map span_to (yearlySpans 0))"
  by code_simp

lemma yearly_sorted: "sorted_wrt (ends_before 12) (map span_to (yearlySpans 0))"
  by code_simp


section \<open>The span generator: partitions\<close>

text \<open>
  Claim C7, as stated, at a warm-up of \<open>144025246081\<close> minutes and the yearly table.
  The nominal range of the first span starts with 2018, and the claim asks for a
  \<^verbatim>\<open>from\<close> that many minutes earlier. That instant is one minute before the first
  instant a \<^verbatim>\<open>Date\<close> can hold, and the code returns an invalid date.
\<close>

theorem warmup_beyond_date_range_counterexample:
  "(0::int) \<le> 144025246081 \<and>
   partition_start 12 (span_to (yearlySpans 144025246081 ! 0)) = Some 1514764800000 \<and>
   1514764800000 - 144025246081 * 60000 = (- 8640000000000000 - 60000 :: int) \<and>
   span_from (yearlySpans 144025246081 ! 0) = None"
  by code_simp

text \<open>
  Claim C7, amended. For every whole number \<open>w \<ge> 0\<close> of warm-up minutes and each of the
  three tables (monthly, quarterly, yearly: partitions of \<open>k = 1, 3, 12\<close> calendar
  months): every span ends at a valid instant \<open>e\<close>, and its nominal range starts \<open>k\<close>
  calendar months before that, at \<open>s < e\<close>. Its \<^verbatim>\<open>from\<close> is \<open>s\<close> minus \<open>w\<close> minutes (so
  \<open>s\<close> itself when \<open>w = 0\<close>, and never later than \<open>s\<close>) as long as that instant is not
  before the first instant of a \<^verbatim>\<open>Date\<close>, which holds in all three tables for every
  \<open>w\<close> up to \<open>144025099200\<close>; for a longer warm-up it is an invalid date. Every later
  span of the table has a nominal range that starts at or after \<open>e\<close>, so the nominal
  ranges are in strictly increasing order and do not overlap.
\<close>

theorem date_spans_partition:
  assumes "0 \<le> w"
    and "(k, spans) \<in> {(1, monthlySpans w), (3, quarterlySpans w), (12, yearlySpans w)}"
  shows "\<forall>i<length spans. \<exists>s e.
           partition_start k (span_to (spans ! i)) = Some s \<and>
           moment (span_to (spans ! i)) = Some e \<and> s < e \<and>
           span_from (spans ! i) =
             (if - 8640000000000000 \<le> s - w * 60000 then Some (s - w * 60000) else None) \<and>
           (w \<le> 144025099200 \<longrightarrow> span_from (spans ! i) = Some (s - w * 60000)) \<and>
           s - w * 60000 \<le> s \<and>
           (\<forall>j<length spans. i < j \<longrightarrow>
              (\<exists>s'. partition_start k (span_to (spans ! j)) = Some s' \<and> e \<le> s'))"
proof (intro allI impI)
  fix i assume i: "i < length spans"
  from assms(2) consider
      "k = 1" "spans = monthlySpans w" | "k = 3" "spans = quarterlySpans w"
    | "k = 12" "spans = yearlySpans w"
    by auto
  then have "\<exists>s e. partition_start k (span_to (spans ! i)) = Some s \<and>
           moment (span_to (spans ! i)) = Some e \<and> s < e \<and>
           span_from (spans ! i) =
             (if - 8640000000000000 \<le> s - w * 60000 then Some (s - w * 60000) else None) \<and>
           (w \<le> 144025099200 \<longrightarrow> span_from (spans ! i) = Some (s - w * 60000)) \<and>
           (\<forall>j<length spans. i < j \<longrightarrow>
              (\<exists>s'. partition_start k (span_to (spans ! j)) = Some s' \<and> e \<le> s'))"
  proof cases
    case 1
    show ?thesis unfolding 1
      by (rule spans_partition[OF monthly_to monthly_from monthly_from0 monthly_nonempty
            monthly_in_range monthly_sorted i[unfolded 1] assms(1)])
  next
    case 2
    show ?thesis unfolding 2
      by (rule spans_partition[OF quarterly_to quarterly_from quarterly_from0 quarterly_nonempty
            quarterly_in_range quarterly_sorted i[unfolded 2] assms(1)])
  next
    case 3
    show ?thesis unfolding 3
      by (rule spans_partition[OF yearly_to yearly_from yearly_from0 yearly_nonempty
            yearly_in_range yearly_sorted i[unfolded 3] assms(1)])
  qed
  then obtain s e where
        1: "partition_start k (span_to (spans ! i)) = Some s"
    and 2: "moment (span_to (spans ! i)) = Some e"
    and 3: "s < e"
    and 4: "span_from (spans ! i) =
             (if - 8640000000000000 \<le> s - w * 60000 then Some (s - w * 60000) else None)"
    and 5: "w \<le> 144025099200 \<longrightarrow> span_from (spans ! i) = Some (s - w * 60000)"
    and 6: "\<forall>j<length spans. i < j \<longrightarrow>
              (\<exists>s'. partition_start k (span_to (spans ! j)) = Some s' \<and> e \<le> s')"
    by (elim exE conjE) (rule that; assumption)
  from assms(1) have 7: "s - w * 60000 \<le> s" by simp
  from 1 2 3 4 5 7 6 show "\<exists>s e.
           partition_start k (span_to (spans ! i)) = Some s \<and>
           moment (span_to (spans ! i)) = Some e \<and> s < e \<and>
           span_from (spans ! i) =
             (if - 8640000000000000 \<le> s - w * 60000 then Some (s - w * 60000) else None) \<and>
           (w \<le> 144025099200 \<longrightarrow> span_from (spans ! i) = Some (s - w * 60000)) \<and>
           s - w * 60000 \<le> s \<and>
           (\<forall>j<length spans. i < j \<longrightarrow>
              (\<exists>s'. partition_start k (span_to (spans ! j)) = Some s' \<and> e \<le> s'))"
    by blast
qed

text \<open>
  Claim C7, amended, at \<open>w = 10\<close> and the yearly table: the first span ends with 2018,
  its nominal range starts with 2018, its \<^verbatim>\<open>from\<close> is ten minutes earlier, and the
  second nominal range starts where the first ends.
\<close>

theorem date_spans_partition_witness:
  "(0::int) \<le> 10 \<and>
   (12, yearlySpans 10) \<in> {(1, monthlySpans 10), (3, quarterlySpans 10), (12, yearlySpans 10)} \<and>
   partition_start 12 (span_to (yearlySpans 10 ! 0)) = Some 1514764800000 \<and>
   moment (span_to (yearlySpans 10 ! 0)) = Some 1546300800000 \<and>
   span_from (yearlySpans 10 ! 0) = Some (1514764800000 - 10 * 60000) \<and>
   partition_start 12 (span_to (yearlySpans 10 ! 1)) = Some 1546300800000"
proof -
  have w: "(0::int) \<le> 10" by simp
  have m: "(12, yearlySpans 10) \<in> {(1, monthlySpans 10), (3, quarterlySpans 10), (12, yearlySpans 10)}"
    by simp
  have l: "0 < length (yearlySpans 10)" "1 < length (yearlySpans 10)"
    by (simp_all add: yearlySpans_def)
  from date_spans_partition[OF w m, rule_format, OF l(1)]
  obtain s e where s: "partition_start 12 (span_to (yearlySpans 10 ! 0)) = Some s"
    and e: "moment (span_to (yearlySpans 10 ! 0)) = Some e"
    and f: "10 \<le> (144025099200::int) \<longrightarrow> span_from (yearlySpans 10 ! 0) = Some (s - 10 * 60000)"
    by blast
  have s0: "partition_start 12 (span_to (yearlySpans 10 ! 0)) = Some 1514764800000"
    by code_simp
  have e0: "moment (span_to (yearlySpans 10 ! 0)) = Some 1546300800000"
    by code_simp
  have s1: "partition_start 12 (span_to (yearlySpans 10 ! 1)) = Some 1546300800000"
    by code_simp
  from s s0 f have "span_from (yearlySpans 10 ! 0) = Some (1514764800000 - 10 * 60000)"
    by simp
  with w m s0 e0 s1 show ?thesis by blast
qed

section \<open>The span generator: the batch size\<close>

text \<open>
  Claim C8 on the code. Without \<^verbatim>\<open>batchBacktest\<close>, and with the empty string as
  \<^verbatim>\<open>batchSize\<close>, \<^verbatim>\<open>getDateMonthSpansForYear\<close> returns the monthly spans. With the batch
  size \<^verbatim>\<open>'1 week'\<close>, one of the values the comment at the head of the file names, it
  returns \<^verbatim>\<open>undefined\<close> and not the monthly spans: no branch of the chain assigns
  \<^verbatim>\<open>dateSpans\<close>.
\<close>

theorem getDateMonthSpansForYear_unrecognized:
  "getDateMonthSpansForYear example_config = (Inr (Some (monthlySpans 600)) :: unit error + dateSpan list option) \<and>
   getDateMonthSpansForYear (with_batchSize (JStr [])) = (Inr (Some (monthlySpans 600)) :: unit error + dateSpan list option) \<and>
   getDateMonthSpansForYear (with_batchSize (JStr ''1 week'')) = (Inr None :: unit error + dateSpan list option)"
  by (simp add: getDateMonthSpansForYear_def example_config_def with_batchSize_def)

text \<open>
  Claim C8 on the code, at the batch size \<^verbatim>\<open>'1 week'\<close> alone: the result is
  \<^verbatim>\<open>undefined\<close>.
\<close>

theorem getDateMonthSpansForYear_unrecognized_witness:
  "getDateMonthSpansForYear (with_batchSize (JStr ''1 week'')) = (Inr None :: unit error + dateSpan list option)"
  using getDateMonthSpansForYear_unrecognized by blast

section \<open>The route: auxiliary facts\<close>

lemma json_data_fixed:
  "json_data v \<Longrightarrow> json_value v = v"
  "json_data_elems xs \<Longrightarrow> json_elems xs = xs"
  "json_data_props ps \<Longrightarrow> json_props ps = ps"
  by (induction v and xs and ps rule: json_value_json_elems_json_props.induct) auto

lemma json_prop_fixed: "json_prop_data v \<Longrightarrow> json_prop v = v"
  by (auto simp: json_prop_data_def json_prop_def json_data_fixed)

lemma JSON_clone_fixed: "json_config c \<Longrightarrow> JSON_clone c = c"
  by (cases c)
     (auto simp: json_config_def JSON_clone_def json_prop_fixed json_data_fixed
           split: option.splits)

lemma sequential_loop_ok:
  assumes "h a = Some c0"
    and "\<And>sp. (set_daterange sp c0 :: 'e error + config) = Inr (R sp)"
    and "\<And>sp sp'. (set_daterange sp' (R sp) :: 'e error + config) = Inr (R sp')"
    and "\<And>sp. sp \<in> set sps \<Longrightarrow> run ''backtest'' (R sp) = Inr (f sp)"
  shows "\<exists>h'. sequential_loop run a sps (h, reqs, acc) =
           (Inr (h', reqs @ replicate (length sps) a, acc @ map f sps) :: 'e error + _) \<and>
           h' a = Some (if sps = [] then c0 else R (last sps)) \<and> (\<forall>x. x \<noteq> a \<longrightarrow> h' x = h x)"
  using assms
proof (induction sps arbitrary: h c0 reqs acc)
  case Nil
  then show ?case by simp
next
  case (Cons sp sps)
  have 1: "(h(a \<mapsto> R sp)) a = Some (R sp)" by simp
  have 2: "\<And>sp'. (set_daterange sp' (R sp) :: 'e error + config) = Inr (R sp')"
    by (rule Cons.prems(3))
  have 4: "\<And>x. x \<in> set sps \<Longrightarrow> run ''backtest'' (R x) = Inr (f x)"
    using Cons.prems(4) by simp
  have "\<exists>h'. sequential_loop run a sps (h(a \<mapsto> R sp), reqs @ [a], acc @ [f sp]) =
           (Inr (h', (reqs @ [a]) @ replicate (length sps) a, (acc @ [f sp]) @ map f sps) :: 'e error + _) \<and>
           h' a = Some (if sps = [] then R sp else R (last sps)) \<and>
           (\<forall>x. x \<noteq> a \<longrightarrow> h' x = (h(a \<mapsto> R sp)) x)"
  proof (rule Cons.IH[of "h(a \<mapsto> R sp)" "R sp" "reqs @ [a]" "acc @ [f sp]"])
    show "(h(a \<mapsto> R sp)) a = Some (R sp)" by (rule 1)
    show "\<And>sp'. (set_daterange sp' (R sp) :: 'e error + config) = Inr (R sp')" by (rule 2)
    show "\<And>sp sp'. (set_daterange sp' (R sp) :: 'e error + config) = Inr (R sp')"
      by (rule Cons.prems(3))
    show "\<And>x. x \<in> set sps \<Longrightarrow> run ''backtest'' (R x) = Inr (f x)" by (rule 4)
  qed
  then obtain h' where h': "sequential_loop run a sps (h(a \<mapsto> R sp), reqs @ [a], acc @ [f sp]) =
           (Inr (h', (reqs @ [a]) @ replicate (length sps) a, (acc @ [f sp]) @ map f sps) :: 'e error + _)"
     and a: "h' a = Some (if sps = [] then R sp else R (last sps))"
     and x: "\<forall>x. x \<noteq> a \<longrightarrow> h' x = (h(a \<mapsto> R sp)) x"
    by blast
  have r: "run ''backtest'' (R sp) = Inr (f sp)" using Cons.prems(4) by simp
  have "sequential_loop run a (sp # sps) (h, reqs, acc) =
          (Inr (h', reqs @ replicate (length (sp # sps)) a, acc @ map f (sp # sps)) :: 'e error + _)"
    using Cons.prems(1) Cons.prems(2)[of sp] r h' by (simp add: replicate_app_Cons_same)
  moreover have "h' a = Some (if sp # sps = [] then c0 else R (last (sp # sps)))"
    using a by simp
  moreover have "\<forall>x. x \<noteq> a \<longrightarrow> h' x = h x" using x by simp
  ultimately show ?case by blast
qed

lemma sequential_loop_fail:
  assumes "h a = Some c0"
    and "\<And>sp. (set_daterange sp c0 :: 'e error + config) = Inr (R sp)"
    and "\<And>sp sp'. (set_daterange sp' (R sp) :: 'e error + config) = Inr (R sp')"
    and "i < length sps"
    and "run ''backtest'' (R (sps ! i)) = Inl e"
    and "\<And>j. j < i \<Longrightarrow> \<exists>r. run ''backtest'' (R (sps ! j)) = Inr r"
  shows "sequential_loop run a sps (h, reqs, acc) = (Inl (EngineError e) :: 'e error + _)"
  using assms
proof (induction sps arbitrary: h c0 reqs acc i)
  case Nil
  then show ?case by simp
next
  case (Cons sp sps)
  show ?case
  proof (cases i)
    case 0
    with Cons.prems show ?thesis by simp
  next
    case (Suc k)
    from Cons.prems(6)[of 0] Suc obtain r where r: "run ''backtest'' (R sp) = Inr r" by auto
    have 1: "(h(a \<mapsto> R sp)) a = Some (R sp)" by simp
    have 2: "\<And>sp'. (set_daterange sp' (R sp) :: 'e error + config) = Inr (R sp')"
      by (rule Cons.prems(3))
    have "sequential_loop run a sps (h(a \<mapsto> R sp), reqs @ [a], acc @ [r]) = (Inl (EngineError e) :: 'e error + _)"
    proof (rule Cons.IH[of "h(a \<mapsto> R sp)" "R sp" k "reqs @ [a]" "acc @ [r]"])
      show "(h(a \<mapsto> R sp)) a = Some (R sp)" by (rule 1)
      show "\<And>sp'. (set_daterange sp' (R sp) :: 'e error + config) = Inr (R sp')" by (rule 2)
      show "\<And>sp sp'. (set_daterange sp' (R sp) :: 'e error + config) = Inr (R sp')"
        by (rule Cons.prems(3))
      show "k < length sps" using Cons.prems(4) Suc by simp
      show "run ''backtest'' (R (sps ! k)) = Inl e" using Cons.prems(5) Suc by simp
      show "\<exists>r. run ''backtest'' (R (sps ! j)) = Inr r" if "j < k" for j
        using Cons.prems(6)[of "Suc j"] that Suc by simp
    qed
    then show ?thesis using Cons.prems(1) Cons.prems(2)[of sp] r by simp
  qed
qed

lemma concurrent_map_ok:
  assumes "h a = Some c" and "a < n"
    and "\<And>sp. (set_daterange sp (JSON_clone c) :: 'e error + config) = Inr (R sp)"
  shows "\<exists>h'. concurrent_map run a sps (h, n, reqs, ps) =
           (Inr (h', n + length sps, reqs @ [n..<n + length sps],
                 ps @ map (\<lambda>sp. run ''backtest'' (R sp)) sps) :: 'e error + _) \<and>
           (\<forall>i<length sps. h' (n + i) = Some (R (sps ! i))) \<and>
           (\<forall>x. x < n \<longrightarrow> h' x = h x)"
  using assms
proof (induction sps arbitrary: h n reqs ps)
  case Nil
  then show ?case by simp
next
  case (Cons sp sps)
  have 1: "(h(n \<mapsto> R sp)) a = Some c" using Cons.prems(1,2) by simp
  have 2: "a < Suc n" using Cons.prems(2) by simp
  from Cons.IH[of "h(n \<mapsto> R sp)" "Suc n" "reqs @ [n]" "ps @ [run ''backtest'' (R sp)]", OF 1 2 Cons.prems(3)]
  obtain h' where h': "concurrent_map run a sps (h(n \<mapsto> R sp), Suc n, reqs @ [n], ps @ [run ''backtest'' (R sp)]) =
           (Inr (h', Suc n + length sps, (reqs @ [n]) @ [Suc n..<Suc n + length sps],
                 (ps @ [run ''backtest'' (R sp)]) @ map (\<lambda>sp. run ''backtest'' (R sp)) sps) :: 'e error + _)"
     and i: "\<forall>i<length sps. h' (Suc n + i) = Some (R (sps ! i))"
     and x: "\<forall>x. x < Suc n \<longrightarrow> h' x = (h(n \<mapsto> R sp)) x"
    by blast
  have "[n..<n + length (sp # sps)] = n # [Suc n..<Suc n + length sps]"
    by (simp add: upt_rec[of n] Suc_le_eq)
  moreover have "h' (n + i) = Some (R ((sp # sps) ! i))" if "i < length (sp # sps)" for i
    using that i x by (cases i) auto
  moreover have "h' y = h y" if "y < n" for y using x that by simp
  moreover have "concurrent_map run a (sp # sps) (h, n, reqs, ps) =
      concurrent_map run a sps (h(n \<mapsto> R sp), Suc n, reqs @ [n], ps @ [run ''backtest'' (R sp)])"
    using Cons.prems(1) Cons.prems(3)[of sp] by simp
  ultimately show ?case
    using h' by simp
qed


lemma rejections_none:
  "rejections ps = [] \<Longrightarrow> ps = map Inr (resolutions ps)"
  by (induction ps rule: rejections.induct) auto

lemma rejections_first:
  "rejections ps \<noteq> [] \<Longrightarrow>
     \<exists>i<length ps. ps ! i = Inl (hd (rejections ps)) \<and> (\<forall>j<i. \<exists>r. ps ! j = Inr r)"
proof (induction ps rule: rejections.induct)
  case 1
  then show ?case by simp
next
  case (2 e ps)
  then show ?case by (intro exI[of _ 0]) simp
next
  case (3 r ps)
  then obtain i where i: "i < length ps" "ps ! i = Inl (hd (rejections ps))"
      "\<forall>j<i. \<exists>r. ps ! j = Inr r" by auto
  show ?case
  proof (intro exI[of _ "Suc i"] conjI allI impI)
    show "Suc i < length (Inr r # ps)" using i by simp
    show "(Inr r # ps) ! Suc i = Inl (hd (rejections (Inr r # ps)))" using i by simp
    show "\<exists>ra. (Inr r # ps) ! j = Inr ra" if "j < Suc i" for j
      using that i(3) by (cases j) auto
  qed
qed

lemma rejections_only:
  assumes "i < length ps" "ps ! i = Inl e" "\<forall>j<length ps. j \<noteq> i \<longrightarrow> (\<exists>r. ps ! j = Inr r)"
  shows "set (rejections ps) = {e}"
  using assms
proof (induction ps arbitrary: i rule: rejections.induct)
  case 1
  then show ?case by simp
next
  case (2 e' ps)
  have i0: "i = 0"
  proof (rule ccontr)
    assume "i \<noteq> 0"
    with 2(4)[rule_format, of 0] show False by simp
  qed
  have "rejections ps = []"
  proof (rule ccontr)
    assume "rejections ps \<noteq> []"
    from rejections_first[OF this] obtain k where "k < length ps" "ps ! k = Inl (hd (rejections ps))"
      by blast
    with 2(4)[rule_format, of "Suc k"] i0 show False by simp
  qed
  with 2 i0 show ?case by simp
next
  case (3 r ps)
  then obtain k where k: "i = Suc k" by (cases i) auto
  have "set (rejections ps) = {e}"
  proof (rule 3(1)[of k])
    show "k < length ps" using 3(2) k by simp
    show "ps ! k = Inl e" using 3(3) k by simp
    show "\<forall>j<length ps. j \<noteq> k \<longrightarrow> (\<exists>r. ps ! j = Inr r)"
    proof (intro allI impI)
      fix j assume "j < length ps" "j \<noteq> k"
      with 3(4)[rule_format, of "Suc j"] k show "\<exists>r. ps ! j = Inr r" by simp
    qed
  qed
  then show ?case by simp
qed

lemma run_sequential_eq:
  assumes "backtest c = Some b"
  shows "(run_sequential run c (Some sps) :: 'e error + 'r list) =
     (let results = map (\<lambda>sp. run ''backtest'' (c\<lparr>backtest := Some (b\<lparr>daterange := jv_of_span sp\<rparr>)\<rparr>)) sps
      in if rejections results = [] then Inr (resolutions results)
         else Inl (EngineError (hd (rejections results))))"
proof -
  define R where "R sp = c\<lparr>backtest := Some (b\<lparr>daterange := jv_of_span sp\<rparr>)\<rparr>" for sp
  define results where "results = map (\<lambda>sp. run ''backtest'' (R sp)) sps"
  let ?h = "(\<lambda>_. None)(0 \<mapsto> c) :: store"
  have h: "?h 0 = Some c" by simp
  have s1: "(set_daterange sp c :: 'e error + config) = Inr (R sp)" for sp
    by (simp add: set_daterange_def assms R_def)
  have s2: "(set_daterange sp' (R sp) :: 'e error + config) = Inr (R sp')" for sp sp'
    by (simp add: set_daterange_def R_def)
  have "(run_sequential run c (Some sps) :: 'e error + 'r list) =
      (if rejections results = [] then Inr (resolutions results)
         else Inl (EngineError (hd (rejections results))))"
  proof (cases "rejections results = []")
    case True
    from rejections_none[OF True] have m: "results = map Inr (resolutions results)" .
    define f where "f sp = (case run ''backtest'' (R sp) of Inr r \<Rightarrow> r)" for sp
    have f: "run ''backtest'' (R sp) = Inr (f sp)" if "sp \<in> set sps" for sp
    proof -
      from that have "run ''backtest'' (R sp) \<in> set results" by (auto simp: results_def)
      with m obtain r where "run ''backtest'' (R sp) = Inr r"
        by (metis (no_types, lifting) imageE list.set_map)
      then show ?thesis by (simp add: f_def)
    qed
    then have "results = map (\<lambda>sp. Inr (f sp)) sps"
      by (simp add: results_def)
    then have "resolutions results = map f sps"
      by (simp add: rejections_none) (induction sps arbitrary: results, auto)
    moreover from sequential_loop_ok[of ?h 0 c R sps run f "[]" "[]", OF h s1 s2 f]
    obtain h' where "sequential_loop run 0 sps (?h, [], []) =
        (Inr (h', [] @ replicate (length sps) 0, [] @ map f sps) :: 'e error + _)"
      by blast
    ultimately show ?thesis using True by (simp add: run_sequential_def)
  next
    case False
    from rejections_first[OF False] obtain i where i: "i < length results"
      "results ! i = Inl (hd (rejections results))" "\<forall>j<i. \<exists>r. results ! j = Inr r"
      by blast
    have "sequential_loop run 0 sps (?h, [], []) =
        (Inl (EngineError (hd (rejections results))) :: 'e error + _)"
    proof (rule sequential_loop_fail[of ?h 0 c R i sps run _ "[]" "[]", OF h s1 s2])
      show "i < length sps" using i(1) by (simp add: results_def)
      then show "run ''backtest'' (R (sps ! i)) = Inl (hd (rejections results))"
        using i(2) by (simp add: results_def)
      show "\<exists>r. run ''backtest'' (R (sps ! j)) = Inr r" if "j < i" for j
        using i(3) that \<open>i < length sps\<close> by (simp add: results_def)
    qed
    then show ?thesis using False by (simp add: run_sequential_def)
  qed
  then show ?thesis by (simp add: results_def R_def Let_def)
qed

lemma run_concurrent_eq:
  assumes "backtest c = Some b"
  shows "(run_concurrent run c (Some sps) :: ('e error + 'r list) set) =
     Promise_all (map (\<lambda>sp. run ''backtest''
        ((JSON_clone c)\<lparr>backtest := Some ((the (backtest (JSON_clone c)))\<lparr>daterange := jv_of_span sp\<rparr>)\<rparr>)) sps)"
proof -
  define R where "R sp = (JSON_clone c)\<lparr>backtest :=
     Some ((the (backtest (JSON_clone c)))\<lparr>daterange := jv_of_span sp\<rparr>)\<rparr>" for sp
  let ?h = "(\<lambda>_. None)(0 \<mapsto> c) :: store"
  have h: "?h 0 = Some c" by simp
  have "backtest (JSON_clone c) \<noteq> None" using assms by (simp add: JSON_clone_def)
  then have s: "(set_daterange sp (JSON_clone c) :: 'e error + config) = Inr (R sp)" for sp
    by (auto simp: set_daterange_def R_def)
  from concurrent_map_ok[of ?h 0 c 1 R run sps "[]" "[]", OF h _ s]
  obtain h' where "concurrent_map run 0 sps (?h, 1, [], []) =
           (Inr (h', 1 + length sps, [] @ [1..<1 + length sps],
                 [] @ map (\<lambda>sp. run ''backtest'' (R sp)) sps) :: 'e error + _)"
    by auto
  then show ?thesis by (simp add: run_concurrent_def R_def)
qed

lemma run_none:
  "(run_sequential run c None :: 'e error + 'r list) = Inl TypeError"
  "(run_concurrent run c None :: ('e error + 'r list) set) = {Inl TypeError}"
  by (simp_all add: run_sequential_def run_concurrent_def)

lemma run_no_backtest:
  assumes "backtest c = None"
  shows "(run_sequential run c (Some sps) :: 'e error + 'r list) = (if sps = [] then Inr [] else Inl TypeError)"
    and "(run_concurrent run c (Some sps) :: ('e error + 'r list) set) = {if sps = [] then Inr [] else Inl TypeError}"
proof -
  show "(run_sequential run c (Some sps) :: 'e error + 'r list) = (if sps = [] then Inr [] else Inl TypeError)"
    using assms by (cases sps) (simp_all add: run_sequential_def set_daterange_def)
  have "backtest (JSON_clone c) = None" using assms by (simp add: JSON_clone_def)
  then show "(run_concurrent run c (Some sps) :: ('e error + 'r list) set) = {if sps = [] then Inr [] else Inl TypeError}"
    by (cases sps) (simp_all add: run_concurrent_def set_daterange_def Promise_all_def)
qed

lemma sequential_loop_requests:
  "sequential_loop run a sps (h, reqs, acc) = Inr (h', reqs', acc') \<Longrightarrow>
     reqs' = reqs @ replicate (length sps) a"
proof (induction sps arbitrary: h reqs acc)
  case Nil
  then show ?case by simp
next
  case (Cons sp sps)
  from Cons.prems obtain c c' r where
    "sequential_loop run a sps (h(a \<mapsto> c'), reqs @ [a], acc @ [r]) = Inr (h', reqs', acc')"
    by (auto split: option.splits sum.splits)
  from Cons.IH[OF this] show ?case by (simp add: replicate_app_Cons_same)
qed

section \<open>The two execution paths\<close>

text \<open>
  Claim C5. For a configuration of JSON data, any list of date spans (or none) and any
  deterministic compute engine: the outcome of the sequential path is one of the
  possible outcomes of the concurrent path, and as soon as either path yields a list
  of backtest results, both yield that same ordered list, whatever the timing, and the
  response built from it (backtests, performance report, batch report, summary) is the
  same.
\<close>

theorem execution_modes_agree:
  fixes run :: "('e, 'a backtestResult_scheme) runner"
  assumes "json_config c"
  shows "run_sequential run c dateSpans \<in> run_concurrent run c dateSpans \<and>
     (\<forall>bs. run_sequential run c dateSpans = Inr bs \<or> Inr bs \<in> run_concurrent run c dateSpans \<longrightarrow>
        run_sequential run c dateSpans = Inr bs \<and>
        run_concurrent run c dateSpans = {Inr bs} \<and>
        (\<lambda>s. case s of Inl e \<Rightarrow> Inl e | Inr backtests \<Rightarrow> respond backtests threshold)
          ` run_concurrent run c dateSpans = {respond bs threshold :: 'e error + 'a response})"
proof (cases dateSpans)
  case None
  then show ?thesis by (simp add: run_none)
next
  case (Some sps)
  show ?thesis
  proof (cases "backtest c")
    case None
    then show ?thesis unfolding Some by (simp add: run_no_backtest)
  next
    case b: (Some b)
    define results where
      "results = map (\<lambda>sp. run ''backtest'' (c\<lparr>backtest := Some (b\<lparr>daterange := jv_of_span sp\<rparr>)\<rparr>)) sps"
    have s: "run_sequential run c dateSpans =
       (if rejections results = [] then Inr (resolutions results)
         else Inl (EngineError (hd (rejections results))))"
      unfolding Some run_sequential_eq[OF b] results_def Let_def ..
    have p: "run_concurrent run c dateSpans = Promise_all results"
      unfolding Some run_concurrent_eq[OF b] JSON_clone_fixed[OF assms] results_def
      by (simp add: b)
    show ?thesis
    proof (cases "rejections results = []")
      case True
      then show ?thesis unfolding s p by (simp add: Promise_all_def)
    next
      case False
      then have "hd (rejections results) \<in> set (rejections results)" by simp
      with False show ?thesis unfolding s p by (auto simp: Promise_all_def)
    qed
  qed
qed

text \<open>
  Claim C5 at the example configuration in yearly batches and the stub engine that
  never fails: both paths yield the three results of 2019, 2020 and 2021 in this order.
\<close>

theorem execution_modes_agree_witness:
  "json_config (batch_config True) \<and>
   run_sequential (stub_engine []) (batch_config True) (Some (yearlySpans 600)) =
     Inr [stub_result 2019, stub_result 2020, stub_result 2021] \<and>
   run_concurrent (stub_engine []) (batch_config True) (Some (yearlySpans 600)) =
     {Inr [stub_result 2019, stub_result 2020, stub_result 2021]} \<and>
   (\<lambda>s. case s of Inl e \<Rightarrow> Inl e | Inr backtests \<Rightarrow> respond backtests 2020)
      ` run_concurrent (stub_engine []) (batch_config True) (Some (yearlySpans 600)) =
     {respond [stub_result 2019, stub_result 2020, stub_result 2021] 2020}"
proof -
  have j: "json_config (batch_config True)"
    by code_simp
  have s: "run_sequential (stub_engine []) (batch_config True) (Some (yearlySpans 600)) =
      Inr [stub_result 2019, stub_result 2020, stub_result 2021]"
    by code_simp
  from execution_modes_agree[OF j, of "stub_engine []" "Some (yearlySpans 600)" 2020] s j show ?thesis
    by blast
qed

section \<open>A failing partition\<close>

text \<open>
  Claim C6, as stated, on the three yearly partitions: whether the engine fails on the
  partition at index 1 (the one ending 2020-01-01) or on the one at index 2 (ending
  2021-01-01), the route rejects with the very same error in both modes, the error of
  the engine. Nothing in it identifies the index of the partition.
\<close>

theorem engine_failure_index_counterexample:
  "map span_to (yearlySpans 600) =
     [''2019-01-01T00:00:00Z'', ''2020-01-01T00:00:00Z'', ''2021-01-01T00:00:00Z''] \<and>
   batchBacktest (batch_config True) (stub_engine [''2020-01-01T00:00:00Z'']) =
     {Inl (EngineError ''engine failed'')} \<and>
   batchBacktest (batch_config True) (stub_engine [''2021-01-01T00:00:00Z'']) =
     {Inl (EngineError ''engine failed'')} \<and>
   batchBacktest (batch_config False) (stub_engine [''2020-01-01T00:00:00Z'']) =
     {Inl (EngineError ''engine failed'')} \<and>
   batchBacktest (batch_config False) (stub_engine [''2021-01-01T00:00:00Z'']) =
     {Inl (EngineError ''engine failed'')}"
  by code_simp

text \<open>
  Claim C6, amended. If the compute engine rejects on the partition at index \<open>i\<close> and
  resolves on every other partition, then in both modes the batch is rejected with
  the error of the engine itself, unchanged (no partition index is attached to it), and
  the route produces no response: no performance report, batch report or summary.
\<close>

theorem engine_failure_rejects:
  fixes run :: "('e, 'a backtestResult_scheme) runner"
  assumes "(getDateMonthSpansForYear (merged\<lparr>mode := JStr ''backtest''\<rparr>) :: 'e error + dateSpan list option) = Inr (Some sps)"
    and "(strip_big_data (merged\<lparr>mode := JStr ''backtest''\<rparr>) :: 'e error + config) = Inr c"
    and "json_config c" and "backtest c = Some b"
    and "i < length sps"
    and "run ''backtest'' (c\<lparr>backtest := Some (b\<lparr>daterange := jv_of_span (sps ! i)\<rparr>)\<rparr>) = Inl e"
    and "\<forall>j<length sps. j \<noteq> i \<longrightarrow>
           (\<exists>r. run ''backtest'' (c\<lparr>backtest := Some (b\<lparr>daterange := jv_of_span (sps ! j)\<rparr>)\<rparr>) = Inr r)"
  shows "run_sequential run c (Some sps) = Inl (EngineError e) \<and>
         run_concurrent run c (Some sps) = {Inl (EngineError e)} \<and>
         batchBacktest merged run = {Inl (EngineError e)}"
proof -
  define results where
    "results = map (\<lambda>sp. run ''backtest'' (c\<lparr>backtest := Some (b\<lparr>daterange := jv_of_span sp\<rparr>)\<rparr>)) sps"
  have "set (rejections results) = {e}"
  proof (rule rejections_only[of i])
    show "i < length results" using assms(5) by (simp add: results_def)
    show "results ! i = Inl e" using assms(5,6) by (simp add: results_def)
    show "\<forall>j<length results. j \<noteq> i \<longrightarrow> (\<exists>r. results ! j = Inr r)"
      using assms(7) by (simp add: results_def)
  qed
  then have r: "rejections results \<noteq> []" "hd (rejections results) = e"
    "(\<lambda>e. Inl (EngineError e) :: 'e error + 'a backtestResult_scheme list) ` set (rejections results) = {Inl (EngineError e)}"
  proof -
    from \<open>set (rejections results) = {e}\<close> show ne: "rejections results \<noteq> []" by auto
    from hd_in_set[OF ne] \<open>set (rejections results) = {e}\<close> show "hd (rejections results) = e" by simp
    show "(\<lambda>e. Inl (EngineError e) :: 'e error + 'a backtestResult_scheme list) ` set (rejections results) = {Inl (EngineError e)}"
      unfolding \<open>set (rejections results) = {e}\<close> by simp
  qed
  have s: "run_sequential run c (Some sps) = Inl (EngineError e)"
    unfolding run_sequential_eq[OF assms(4)] Let_def results_def[symmetric] using r by simp
  have p: "run_concurrent run c (Some sps) = {Inl (EngineError e)}"
    unfolding run_concurrent_eq[OF assms(4)] JSON_clone_fixed[OF assms(3)]
    using r by (simp add: assms(4) results_def[symmetric] Promise_all_def)
  have "batchBacktest merged run = {Inl (EngineError e)}"
    unfolding batchBacktest_def Let_def assms(1) assms(2) by (simp add: s p)
  with s p show ?thesis by blast
qed

text \<open>
  Claim C6, amended, in concurrent mode with the engine failing on the third yearly
  partition.
\<close>

theorem engine_failure_rejects_witness:
  "run_sequential (stub_engine [''2021-01-01T00:00:00Z''])
      ((batch_config False)\<lparr>mode := JStr ''backtest'',
         backtestResultExporter := Some \<lparr>
           data = Some \<lparr>roundtrips = JBool False, stratCandles = JBool False, data_rest = []\<rparr>,
           exporter_rest = [(''enabled'', JBool True)]\<rparr>\<rparr>)
      (Some (yearlySpans 600)) = Inl (EngineError ''engine failed'') \<and>
   run_concurrent (stub_engine [''2021-01-01T00:00:00Z''])
      ((batch_config False)\<lparr>mode := JStr ''backtest'',
         backtestResultExporter := Some \<lparr>
           data = Some \<lparr>roundtrips = JBool False, stratCandles = JBool False, data_rest = []\<rparr>,
           exporter_rest = [(''enabled'', JBool True)]\<rparr>\<rparr>)
      (Some (yearlySpans 600)) = {Inl (EngineError ''engine failed'')} \<and>
   batchBacktest (batch_config False) (stub_engine [''2021-01-01T00:00:00Z'']) =
     {Inl (EngineError ''engine failed'')}"
proof -
  let ?run = "stub_engine [''2021-01-01T00:00:00Z'']"
  let ?c = "(batch_config False)\<lparr>mode := JStr ''backtest'',
         backtestResultExporter := Some \<lparr>
           data = Some \<lparr>roundtrips = JBool False, stratCandles = JBool False, data_rest = []\<rparr>,
           exporter_rest = [(''enabled'', JBool True)]\<rparr>\<rparr>"
  let ?b = "\<lparr>daterange = JStr ''scan'', backtest_rest = [(''batchSize'', JNum (Fin 50))]\<rparr>"
  let ?R = "\<lambda>j. ?c\<lparr>backtest := Some (?b\<lparr>daterange := jv_of_span (yearlySpans 600 ! j)\<rparr>)\<rparr>"
  have 1: "(getDateMonthSpansForYear ((batch_config False)\<lparr>mode := JStr ''backtest''\<rparr>)
             :: string error + dateSpan list option) = Inr (Some (yearlySpans 600))"
    by (simp add: getDateMonthSpansForYear_def batch_config_def example_config_def)
  have 2: "(strip_big_data ((batch_config False)\<lparr>mode := JStr ''backtest''\<rparr>) :: string error + config) = Inr ?c"
    by (simp add: strip_big_data_def batch_config_def example_config_def)
  have 3: "json_config ?c" by code_simp
  have 4: "backtest ?c = Some ?b" by (simp add: batch_config_def example_config_def)
  have 5: "2 < length (yearlySpans 600)" by (simp add: yearlySpans_def)
  have 6: "?run ''backtest'' (?R 2) = Inl ''engine failed''" by code_simp
  have r0: "?run ''backtest'' (?R 0) = Inr (stub_result 2019)" by code_simp
  have r1: "?run ''backtest'' (?R 1) = Inr (stub_result 2020)" by code_simp
  have 7: "\<forall>j<length (yearlySpans 600). j \<noteq> 2 \<longrightarrow> (\<exists>r. ?run ''backtest'' (?R j) = Inr r)"
  proof (intro allI impI)
    fix j assume "j < length (yearlySpans 600)" "j \<noteq> 2"
    then have "j = 0 \<or> j = 1" by (auto simp: yearlySpans_def)
    then show "\<exists>r. ?run ''backtest'' (?R j) = Inr r" using r0 r1 by blast
  qed
  show ?thesis
    by (rule engine_failure_rejects[where merged = "batch_config False" and sps = "yearlySpans 600" and c = ?c
          and b = ?b and i = 2 and run = ?run and e = "''engine failed''", OF 1 2 3 4 5 6 7])
qed

section \<open>The configuration objects handed to the engine\<close>

text \<open>
  Claim C9, as stated, in sequential mode on the three yearly partitions: all three
  invocations are handed the one object at address \<open>0\<close>; after the loop each of the
  three requests reads the date span of the last partition, and an assignment to the
  \<^verbatim>\<open>daterange\<close> of the first request changes the \<^verbatim>\<open>daterange\<close> of the other two.
\<close>

theorem sequential_requests_shared_counterexample:
  "map_sum id
     (\<lambda>(h, requests, backtests).
        (requests,
         map (\<lambda>a. Option.bind (h a) span_to_of) requests,
         map (\<lambda>a. Option.bind (assign_daterange (requests ! 0) (JStr ''changed'') h a)
                     (\<lambda>c. map_option daterange (backtest c))) requests))
     (sequential_loop (stub_engine []) 0 (yearlySpans 600)
        ((\<lambda>_. None)(0 \<mapsto> example_config), [], [])) =
   Inr ([0, 0, 0],
        [Some ''2021-01-01T00:00:00Z'', Some ''2021-01-01T00:00:00Z'', Some ''2021-01-01T00:00:00Z''],
        [Some (JStr ''changed''), Some (JStr ''changed''), Some (JStr ''changed'')])"
  by code_simp

text \<open>
  Claim C9, amended. In concurrent mode every invocation is handed an object of its
  own, the deep clone of the configuration with its own date span assigned: the
  requests are pairwise distinct objects, distinct from the original configuration,
  and assigning to the \<^verbatim>\<open>daterange\<close> of one request leaves every other request and the
  original unchanged. In sequential mode no clone is made: whenever the loop completes,
  every invocation has been handed the one configuration object, whose \<^verbatim>\<open>daterange\<close>
  is overwritten before each invocation.
\<close>

theorem concurrent_requests_independent:
  fixes run :: "('e, 'r) runner"
  assumes "backtest c = Some b"
  shows "(\<exists>h n requests promises.
            concurrent_map run 0 sps ((\<lambda>_. None)(0 \<mapsto> c), 1, [], []) =
              (Inr (h, n, requests, promises) :: 'e error + _) \<and>
            length requests = length sps \<and> length promises = length sps \<and>
            distinct requests \<and> 0 \<notin> set requests \<and> h 0 = Some c \<and>
            (\<forall>i<length sps. \<exists>ci.
               (set_daterange (sps ! i) (JSON_clone c) :: 'e error + config) = Inr ci \<and>
               h (requests ! i) = Some ci \<and> promises ! i = run ''backtest'' ci) \<and>
            (\<forall>k<length sps. \<forall>v.
               assign_daterange (requests ! k) v h 0 = h 0 \<and>
               (\<forall>j<length sps. j \<noteq> k \<longrightarrow>
                  assign_daterange (requests ! k) v h (requests ! j) = h (requests ! j)))) \<and>
         (\<forall>h requests backtests.
            sequential_loop run 0 sps ((\<lambda>_. None)(0 \<mapsto> c), [], []) =
              (Inr (h, requests, backtests) :: 'e error + _) \<longrightarrow>
            requests = replicate (length sps) 0)"
proof (intro conjI allI impI)
  define R where "R sp = (JSON_clone c)\<lparr>backtest :=
     Some ((the (backtest (JSON_clone c)))\<lparr>daterange := jv_of_span sp\<rparr>)\<rparr>" for sp
  let ?h = "(\<lambda>_. None)(0 \<mapsto> c) :: store"
  have h: "?h 0 = Some c" by simp
  have "backtest (JSON_clone c) \<noteq> None" using assms by (simp add: JSON_clone_def)
  then have s: "(set_daterange sp (JSON_clone c) :: 'e error + config) = Inr (R sp)" for sp
    by (auto simp: set_daterange_def R_def)
  from concurrent_map_ok[of ?h 0 c 1 R run sps "[]" "[]", OF h _ s]
  obtain h' where m: "concurrent_map run 0 sps (?h, 1, [], []) =
           (Inr (h', 1 + length sps, [1..<1 + length sps],
                 map (\<lambda>sp. run ''backtest'' (R sp)) sps) :: 'e error + _)"
    and i: "\<forall>i<length sps. h' (1 + i) = Some (R (sps ! i))"
    and x: "\<forall>x. x < 1 \<longrightarrow> h' x = ?h x"
    by auto
  have req: "[1..<1 + length sps] ! j = 1 + j" if "j < length sps" for j
    by (rule nth_upt) (use that in simp)
  have frame: "assign_daterange a v h' y = h' y" if "a \<noteq> y" for a v y
    using that by (auto simp: assign_daterange_def split: option.splits)
  show "\<exists>h n requests promises.
            concurrent_map run 0 sps ((\<lambda>_. None)(0 \<mapsto> c), 1, [], []) =
              (Inr (h, n, requests, promises) :: 'e error + _) \<and>
            length requests = length sps \<and> length promises = length sps \<and>
            distinct requests \<and> 0 \<notin> set requests \<and> h 0 = Some c \<and>
            (\<forall>i<length sps. \<exists>ci.
               (set_daterange (sps ! i) (JSON_clone c) :: 'e error + config) = Inr ci \<and>
               h (requests ! i) = Some ci \<and> promises ! i = run ''backtest'' ci) \<and>
            (\<forall>k<length sps. \<forall>v.
               assign_daterange (requests ! k) v h 0 = h 0 \<and>
               (\<forall>j<length sps. j \<noteq> k \<longrightarrow>
                  assign_daterange (requests ! k) v h (requests ! j) = h (requests ! j)))"
  proof (intro exI conjI allI impI)
    show "concurrent_map run 0 sps ((\<lambda>_. None)(0 \<mapsto> c), 1, [], []) =
       (Inr (h', 1 + length sps, [1..<1 + length sps],
                 map (\<lambda>sp. run ''backtest'' (R sp)) sps) :: 'e error + _)" by (rule m)
    show "length [1..<1 + length sps] = length sps" by (simp only: length_upt add_diff_cancel_left')
    show "length (map (\<lambda>sp. run ''backtest'' (R sp)) sps) = length sps" by simp
    show "distinct [1..<1 + length sps]" by simp
    show "0 \<notin> set [1..<1 + length sps]" by (simp only: set_upt atLeastLessThan_iff) simp
    show "h' 0 = Some c" using x by simp
    show "(set_daterange (sps ! j) (JSON_clone c) :: 'e error + config) = Inr (R (sps ! j))" for j
      by (rule s)
    show "h' ([1..<1 + length sps] ! j) = Some (R (sps ! j))" if "j < length sps" for j
      unfolding req[OF that] using i that by blast
    show "map (\<lambda>sp. run ''backtest'' (R sp)) sps ! j = run ''backtest'' (R (sps ! j))"
      if "j < length sps" for j using that by simp
    show "assign_daterange ([1..<1 + length sps] ! k) v h' 0 = h' 0" if "k < length sps" for k v
      unfolding req[OF that] by (intro frame) simp
    show "assign_daterange ([1..<1 + length sps] ! k) v h' ([1..<1 + length sps] ! j) =
            h' ([1..<1 + length sps] ! j)"
      if "k < length sps" "j < length sps" "j \<noteq> k" for k j v
      unfolding req[OF that(1)] req[OF that(2)] using that(3) by (intro frame) simp
  qed
next
  fix h requests backtests
  assume "sequential_loop run 0 sps ((\<lambda>_. None)(0 \<mapsto> c), [], []) =
              (Inr (h, requests, backtests) :: 'e error + _)"
  from sequential_loop_requests[OF this] show "requests = replicate (length sps) 0" by simp
qed

text \<open>Claim C9, amended, at the example configuration and the three yearly partitions.\<close>

theorem concurrent_requests_independent_witness:
  "(\<exists>h n requests promises.
      concurrent_map (stub_engine []) 0 (yearlySpans 600) ((\<lambda>_. None)(0 \<mapsto> example_config), 1, [], []) =
        (Inr (h, n, requests, promises) :: string error + _) \<and>
      length requests = length (yearlySpans 600) \<and> length promises = length (yearlySpans 600) \<and>
      distinct requests \<and> 0 \<notin> set requests \<and> h 0 = Some example_config \<and>
      (\<forall>i<length (yearlySpans 600). \<exists>ci.
         (set_daterange (yearlySpans 600 ! i) (JSON_clone example_config) :: string error + config) = Inr ci \<and>
         h (requests ! i) = Some ci \<and> promises ! i = stub_engine [] ''backtest'' ci) \<and>
      (\<forall>k<length (yearlySpans 600). \<forall>v.
         assign_daterange (requests ! k) v h 0 = h 0 \<and>
         (\<forall>j<length (yearlySpans 600). j \<noteq> k \<longrightarrow>
            assign_daterange (requests ! k) v h (requests ! j) = h (requests ! j)))) \<and>
   (\<exists>h backtests.
      sequential_loop (stub_engine []) 0 (yearlySpans 600) ((\<lambda>_. None)(0 \<mapsto> example_config), [], []) =
        (Inr (h, replicate (length (yearlySpans 600)) 0, backtests) :: string error + _))"
proof -
  have b: "backtest example_config =
      Some \<lparr>daterange = JStr ''scan'', backtest_rest = [(''batchSize'', JNum (Fin 50))]\<rparr>"
    by (simp add: example_config_def)
  note t = concurrent_requests_independent[OF b, of "stub_engine []" "yearlySpans 600"]
  have "case sequential_loop (stub_engine []) 0 (yearlySpans 600)
               ((\<lambda>_. None)(0 \<mapsto> example_config), [], []) of
          Inl e \<Rightarrow> False | Inr st \<Rightarrow> True"
    by code_simp
  then obtain h requests backtests where
    l: "sequential_loop (stub_engine []) 0 (yearlySpans 600)
          ((\<lambda>_. None)(0 \<mapsto> example_config), [], []) = Inr (h, requests, backtests)"
    by (auto split: sum.splits)
  with t have "requests = replicate (length (yearlySpans 600)) 0" by blast
  with l t show ?thesis by blast
qed

end
